theory Spec2Isabelle
  imports Main "HOL-Library.AList"
begin

section \<open>Python values, classes and type annotations\<close>

text \<open>
  The model follows the Pydantic v2 branch of the sources (\<^verbatim>\<open>IS_PYDANTIC_V2\<close> true) wherever
  a function has two branches, and says so where the v1 branch is modelled as well.
  The repository has two compatibility modules, compat.py and \<^verbatim>\<open>_compat.py\<close>; where both
  define a function of one name, the one of compat.py is prefixed \<open>compat_\<close> here and the
  one of \<^verbatim>\<open>_compat.py\<close> is prefixed \<open>ucompat_\<close>. The attribute \<^verbatim>\<open>default\<close> of a descriptor is
  \<open>default_val\<close>.

  A class is known by its name and by the built-in classes among its ancestors, which is
  all that \<^verbatim>\<open>issubclass\<close> in \<^verbatim>\<open>get_sqlalchemy_type\<close> looks at. Python's own subclass facts
  are part of a class's ancestors: \<^verbatim>\<open>bool\<close> derives from \<^verbatim>\<open>int\<close>, \<^verbatim>\<open>datetime\<close> from \<^verbatim>\<open>date\<close>.
\<close>

datatype builtin =
    B_Enum | B_str | B_float | B_bool | B_int | B_datetime | B_date | B_timedelta
  | B_time | B_bytes | B_Decimal | B_IPv4Address | B_IPv4Network | B_IPv6Address
  | B_IPv6Network | B_Path | B_UUID

datatype pyclass = PyClass (class_name: string) (ancestors: "builtin list")

definition issubclass :: "pyclass \<Rightarrow> builtin \<Rightarrow> bool" where
  "issubclass c b = (b \<in> set (ancestors c))"

text \<open>
  \<^verbatim>\<open>typing.get_origin\<close> of a subscripted annotation: \<^verbatim>\<open>typing.Union\<close> (also what
  \<^verbatim>\<open>Optional[X]\<close> is), \<^verbatim>\<open>types.UnionType\<close> (\<^verbatim>\<open>X | None\<close>), \<^verbatim>\<open>list\<close>, SQLAlchemy's \<^verbatim>\<open>Mapped\<close>,
  another generic class (\<^verbatim>\<open>dict\<close>, \<^verbatim>\<open>set\<close>, a generic class of the user), or an object of
  the \<^verbatim>\<open>typing\<close> module that is not a class (\<^verbatim>\<open>Literal\<close>, \<^verbatim>\<open>ClassVar\<close>, ...), kept by name.
\<close>

datatype origin =
    O_Union | O_UnionType | O_list | O_Mapped | O_class pyclass | O_special string

text \<open>
  An annotation: a class, a \<^verbatim>\<open>ForwardRef\<close>, a plain string, \<^verbatim>\<open>NoneType\<close> (what \<^verbatim>\<open>None\<close>
  becomes inside a union), the value \<^verbatim>\<open>None\<close> itself, an object of the \<^verbatim>\<open>typing\<close> module
  that is not a class, or a subscripted generic with its origin and its arguments
  (\<^verbatim>\<open>get_args\<close>).
\<close>

datatype ann =
    Class pyclass
  | ForwardRef string
  | Str string
  | NoneType
  | NoneValue
  | SpecialForm string
  | Generic origin "ann list"

definition get_origin :: "ann \<Rightarrow> origin option" where
  "get_origin a = (case a of Generic orig _ \<Rightarrow> Some orig | _ \<Rightarrow> None)"

definition get_args :: "ann \<Rightarrow> ann list" where
  "get_args a = (case a of Generic _ args \<Rightarrow> args | _ \<Rightarrow> [])"

text \<open>
  The origin object itself, where the code hands it on as a type or a target:
  \<^verbatim>\<open>types.UnionType\<close>, \<^verbatim>\<open>list\<close>, \<^verbatim>\<open>Mapped\<close> and the generic classes are classes,
  \<^verbatim>\<open>typing.Union\<close> and the other objects of the \<^verbatim>\<open>typing\<close> module are not.
\<close>

definition origin_object :: "origin \<Rightarrow> ann" where
  "origin_object orig =
     (case orig of
        O_Union \<Rightarrow> SpecialForm ''Union''
      | O_UnionType \<Rightarrow> Class (PyClass ''UnionType'' [])
      | O_list \<Rightarrow> Class (PyClass ''list'' [])
      | O_Mapped \<Rightarrow> Class (PyClass ''Mapped'' [])
      | O_class c \<Rightarrow> Class c
      | O_special n \<Rightarrow> SpecialForm n)"

text \<open>\<^verbatim>\<open>_is_union_type\<close> (\<^verbatim>\<open>_compat.py\<close>): \<^verbatim>\<open>t is UnionType or t is Union\<close>.\<close>

definition is_union_type :: "origin \<Rightarrow> bool" where
  "is_union_type t = (t = O_UnionType \<or> t = O_Union)"

text \<open>
  Default values: Pydantic's \<^verbatim>\<open>Undefined\<close> marker, \<^verbatim>\<open>Ellipsis\<close>, \<^verbatim>\<open>None\<close>, or any other
  value, kept by its representation.
\<close>

datatype pyval = Undefined | Ellipsis | PyNone | Val string

text \<open>
  The exceptions of the code, as values. \<open>UnmappedType t\<close> is the \<^verbatim>\<open>ValueError\<close> of
  \<^verbatim>\<open>get_sqlalchemy_type\<close> whose message names the type: \<^verbatim>\<open>{type_} has no matching SQLAlchemy type\<close>.
  The code raises \<^verbatim>\<open>RuntimeError\<close> and \<^verbatim>\<open>ValueError\<close> where the specification speaks of
  configuration, unresolved-target and unmappable-type errors.
\<close>

datatype error =
    ValueError string
  | UnmappedType ann
  | TypeError string
  | RuntimeError string
  | IndexError
  | KeyError string
  | RecursionError
  | ValidationError "(string \<times> string) list"

section \<open>Storage types, columns and field descriptors\<close>

text \<open>
  \<^verbatim>\<open>AutoString None\<close> is the class \<^verbatim>\<open>AutoString\<close> as returned without a length,
  \<^verbatim>\<open>AutoString (Some n)\<close> is \<^verbatim>\<open>AutoString(length=n)\<close>; \<^verbatim>\<open>Numeric p s\<close> is
  \<^verbatim>\<open>Numeric(precision=p, scale=s)\<close>; \<^verbatim>\<open>CustomType\<close> is a type given through \<^verbatim>\<open>sa_type\<close>.
\<close>

datatype satype =
    sa_Enum pyclass
  | AutoString "int option"
  | Float
  | Boolean
  | Integer
  | DateTime
  | Date
  | Interval
  | Time
  | LargeBinary
  | Numeric "int option" "int option"
  | GUID
  | CustomType string

datatype colarg = ForeignKey string | ColumnArg string

datatype kwval = KBool bool | KValue pyval | KCallable string | KOther string

text \<open>\<^verbatim>\<open>Column(sa_type, *args, **kwargs)\<close>: the keyword dictionary keeps insertion order.\<close>

record Column =
  col_type :: satype
  col_args :: "colarg list"
  col_kwargs :: "(string \<times> kwval) list"

record metadata_attrs =
  max_length :: "int option"
  max_digits :: "int option"
  decimal_places :: "int option"

datatype meta = PydanticMetadata metadata_attrs | OtherMetadata string

text \<open>
  The field descriptor (\<^verbatim>\<open>FieldInfo\<close>). An attribute that is \<^verbatim>\<open>Undefined\<close>, or that the
  object does not have (\<^verbatim>\<open>getattr(field_info, name, Undefined)\<close>), is \<open>None\<close>.
  \<open>field_title\<close>, \<open>field_description\<close> and \<open>field_alias\<close> (\<^verbatim>\<open>title\<close>,
  \<^verbatim>\<open>description\<close>, \<^verbatim>\<open>alias\<close>) are documentation only. \<open>original_default\<close> is the
  attribute \<^verbatim>\<open>set_empty_defaults\<close> adds.
\<close>

record FieldInfo =
  annotation :: ann
  default_val :: pyval
  default_factory :: "string option"
  metadata :: "meta list"
  primary_key :: "bool option"
  nullable :: "bool option"
  foreign_key :: "string option"
  unique :: "bool option"
  index :: "bool option"
  sa_type :: "satype option"
  sa_column :: "Column option"
  sa_column_args :: "colarg list option"
  sa_column_kwargs :: "(string \<times> kwval) list option"
  original_default :: "pyval option"
  field_title :: "string option"
  field_description :: "string option"
  field_alias :: "string option"

text \<open>Pydantic v2's \<^verbatim>\<open>FieldInfo.is_required\<close>: no default and no default factory.\<close>

definition is_required :: "FieldInfo \<Rightarrow> bool" where
  "is_required field = (default_val field = Undefined \<and> default_factory field = None)"

text \<open>\<^verbatim>\<open>_is_field_noneable\<close> (\<^verbatim>\<open>_compat.py\<close>, v2), the one \<^verbatim>\<open>get_column_from_field\<close> calls.\<close>

definition is_optional_annotation :: "ann \<Rightarrow> bool" where
  "is_optional_annotation a =
     (case get_origin a of
        None \<Rightarrow> False
      | Some orig \<Rightarrow> is_union_type orig \<and> NoneType \<in> set (get_args a))"

definition ucompat_is_field_noneable :: "FieldInfo \<Rightarrow> bool" where
  "ucompat_is_field_noneable field =
     (case nullable field of
        Some b \<Rightarrow> b
      | None \<Rightarrow>
          if is_optional_annotation (annotation field) then True
          else if \<not> is_required field then
            (if default_val field = Undefined then False
             else if annotation field = NoneValue \<or> annotation field = NoneType then True
             else False)
          else False)"

text \<open>\<^verbatim>\<open>is_field_noneable\<close> (compat.py, v2), which reads the sentinel \<open>original_default\<close>.\<close>

definition compat_is_field_noneable :: "FieldInfo \<Rightarrow> bool" where
  "compat_is_field_noneable field =
     (case nullable field of
        Some b \<Rightarrow> b
      | None \<Rightarrow>
          if \<not> is_required field then
            (let d = (case original_default field of Some od \<Rightarrow> od | None \<Rightarrow> default_val field)
             in if d = Undefined then False
                else if annotation field = NoneValue \<or> annotation field = NoneType then True
                else if get_origin (annotation field) = Some O_Union
                        \<and> NoneType \<in> set (get_args (annotation field)) then True
                else False)
          else False)"

text \<open>\<^verbatim>\<open>get_type_from_field\<close> (\<^verbatim>\<open>_compat.py\<close>, v2).\<close>

definition get_type_from_field :: "FieldInfo \<Rightarrow> error + ann" where
  "get_type_from_field field =
     (let type' = annotation field in
      if type' = NoneValue then Inl (ValueError ''Missing field type'')
      else
        (case get_origin type' of
           None \<Rightarrow> Inr type'
         | Some orig \<Rightarrow>
             if is_union_type orig then
               (let bases = get_args type' in
                if length bases > 2 then
                  Inl (ValueError ''Cannot have a (non-optional) union as a SQLAlchemy field'')
                else
                  (case bases of
                     [b0, b1] \<Rightarrow>
                       if b0 \<noteq> NoneType \<and> b1 \<noteq> NoneType then
                         Inl (ValueError ''Cannot have a (non-optional) union as a SQLlchemy field'')
                       else Inr (if b0 \<noteq> NoneType then b0 else b1)
                   | _ \<Rightarrow> Inl IndexError))
             else Inr (origin_object orig)))"

text \<open>
  \<^verbatim>\<open>get_field_metadata\<close> (\<^verbatim>\<open>_compat.py\<close>, v2): the first \<^verbatim>\<open>PydanticMetadata\<close> of the field's
  metadata, else a \<^verbatim>\<open>FakeMetadata()\<close>, whose three attributes are \<^verbatim>\<open>None\<close>.
\<close>

definition FakeMetadata :: metadata_attrs where
  "FakeMetadata = \<lparr>max_length = None, max_digits = None, decimal_places = None\<rparr>"

fun first_pydantic_metadata :: "meta list \<Rightarrow> metadata_attrs" where
  "first_pydantic_metadata [] = FakeMetadata"
| "first_pydantic_metadata (PydanticMetadata m # ms) = m"
| "first_pydantic_metadata (OtherMetadata _ # ms) = first_pydantic_metadata ms"

definition get_field_metadata :: "FieldInfo \<Rightarrow> metadata_attrs" where
  "get_field_metadata field = first_pydantic_metadata (metadata field)"

text \<open>
  \<^verbatim>\<open>issubclass(type_, C)\<close> raises \<^verbatim>\<open>TypeError\<close> unless \<^verbatim>\<open>type_\<close> is a class. \<^verbatim>\<open>NoneType\<close> is
  a class; a forward reference, a string, a subscripted generic and an object of the
  \<^verbatim>\<open>typing\<close> module such as \<^verbatim>\<open>Literal\<close> are not.
\<close>

definition as_class :: "ann \<Rightarrow> pyclass option" where
  "as_class a =
     (case a of
        Class c \<Rightarrow> Some c
      | NoneType \<Rightarrow> Some (PyClass ''NoneType'' [])
      | _ \<Rightarrow> None)"

text \<open>The chain of \<^verbatim>\<open>issubclass\<close> tests of \<^verbatim>\<open>get_sqlalchemy_type\<close> (main.py), in its order.\<close>

definition dispatch_type :: "ann \<Rightarrow> pyclass \<Rightarrow> metadata_attrs \<Rightarrow> error + satype" where
  "dispatch_type type' c md =
     (if issubclass c B_Enum then Inr (sa_Enum c)
      else if issubclass c B_str then
        (case max_length md of
           Some n \<Rightarrow> if n \<noteq> 0 then Inr (AutoString (Some n)) else Inr (AutoString None)
         | None \<Rightarrow> Inr (AutoString None))
      else if issubclass c B_float then Inr Float
      else if issubclass c B_bool then Inr Boolean
      else if issubclass c B_int then Inr Integer
      else if issubclass c B_datetime then Inr DateTime
      else if issubclass c B_date then Inr Date
      else if issubclass c B_timedelta then Inr Interval
      else if issubclass c B_time then Inr Time
      else if issubclass c B_bytes then Inr LargeBinary
      else if issubclass c B_Decimal then Inr (Numeric (max_digits md) (decimal_places md))
      else if issubclass c B_IPv4Address then Inr (AutoString None)
      else if issubclass c B_IPv4Network then Inr (AutoString None)
      else if issubclass c B_IPv6Address then Inr (AutoString None)
      else if issubclass c B_IPv6Network then Inr (AutoString None)
      else if issubclass c B_Path then Inr (AutoString None)
      else if issubclass c B_UUID then Inr GUID
      else Inl (UnmappedType type'))"

definition get_sqlalchemy_type :: "FieldInfo \<Rightarrow> error + satype" where
  "get_sqlalchemy_type field =
     (case sa_type field of
        Some t \<Rightarrow> Inr t
      | None \<Rightarrow>
          (case get_type_from_field field of
             Inl e \<Rightarrow> Inl e
           | Inr type' \<Rightarrow>
               (let md = get_field_metadata field in
                case as_class type' of
                  None \<Rightarrow> Inl (TypeError ''issubclass() arg 1 must be a class'')
                | Some c \<Rightarrow> dispatch_type type' c md)))"

text \<open>
  \<^verbatim>\<open>get_column_from_field\<close> (main.py). \<^verbatim>\<open>kwargs[k] = v\<close> and \<^verbatim>\<open>kwargs.update\<close> replace the
  value of a key already present and append a new key.
\<close>

definition dict_update :: "('k \<times> 'v) list \<Rightarrow> ('k \<times> 'v) list \<Rightarrow> ('k \<times> 'v) list" where
  "dict_update d items = foldl (\<lambda>acc kv. AList.update (fst kv) (snd kv) acc) d items"

definition derived_nullable :: "FieldInfo \<Rightarrow> bool" where
  "derived_nullable field =
     (let pk = (case primary_key field of None \<Rightarrow> False | Some b \<Rightarrow> b);
          nullable0 = (\<not> pk \<and> ucompat_is_field_noneable field)
      in case nullable field of
           Some field_nullable \<Rightarrow> field_nullable
         | None \<Rightarrow> nullable0)"

definition get_column_from_field :: "FieldInfo \<Rightarrow> error + Column" where
  "get_column_from_field field =
     (case sa_column field of
        Some c \<Rightarrow> Inr c
      | None \<Rightarrow>
          (case get_sqlalchemy_type field of
             Inl e \<Rightarrow> Inl e
           | Inr sa_type' \<Rightarrow>
               (let pk = (case primary_key field of None \<Rightarrow> False | Some b \<Rightarrow> b);
                    index' = (case index field of None \<Rightarrow> False | Some b \<Rightarrow> b);
                    nullable' = derived_nullable field;
                    unique' = (case unique field of None \<Rightarrow> False | Some b \<Rightarrow> b);
                    args0 = (case foreign_key field of
                               None \<Rightarrow> []
                             | Some fk \<Rightarrow> if fk \<noteq> [] then [ForeignKey fk] else []);
                    kwargs0 = [(''primary_key'', KBool pk), (''nullable'', KBool nullable'),
                               (''index'', KBool index'), (''unique'', KBool unique')];
                    kwargs1 = (case default_factory field of
                                 Some fac \<Rightarrow> AList.update ''default'' (KCallable fac) kwargs0
                               | None \<Rightarrow>
                                   if default_val field \<noteq> Undefined
                                   then AList.update ''default'' (KValue (default_val field)) kwargs0
                                   else kwargs0);
                    args1 = (case sa_column_args field of
                               None \<Rightarrow> args0
                             | Some extra \<Rightarrow> args0 @ extra);
                    kwargs2 = (case sa_column_kwargs field of
                                 None \<Rightarrow> kwargs1
                               | Some extra \<Rightarrow> dict_update kwargs1 extra)
                in Inr \<lparr>col_type = sa_type', col_args = args1, col_kwargs = kwargs2\<rparr>)))"

text \<open>What a derived column says about itself.\<close>

definition column_kwarg :: "Column \<Rightarrow> string \<Rightarrow> kwval option" where
  "column_kwarg c k = map_of (col_kwargs c) k"

section \<open>The stated rules for nullability and for the storage type\<close>

text \<open>
  The nullability rule in the words of the specification: the override wins; without it a
  primary key is not nullable; otherwise the column is nullable exactly when the type is
  optional or the field carries a none-compatible default, read as a default of \<^verbatim>\<open>None\<close>.
\<close>

definition spec_none_compatible_default :: "FieldInfo \<Rightarrow> bool" where
  "spec_none_compatible_default field = (default_val field = PyNone)"

definition spec_nullable :: "FieldInfo \<Rightarrow> bool" where
  "spec_nullable field =
     (case nullable field of
        Some b \<Rightarrow> b
      | None \<Rightarrow>
          if primary_key field = Some True then False
          else is_optional_annotation (annotation field) \<or> spec_none_compatible_default field)"

text \<open>
  What the code has in the place of the none-compatible default: a static default on a
  field whose annotation is \<^verbatim>\<open>None\<close> itself.
\<close>

definition none_typed_with_default :: "FieldInfo \<Rightarrow> bool" where
  "none_typed_with_default field =
     (default_val field \<noteq> Undefined
      \<and> (annotation field = NoneValue \<or> annotation field = NoneType))"

text \<open>
  The priority list of the specification as a table: the first row whose class the type
  derives from gives the storage type. The row for strings is a parameter, so that the
  rule as stated (the maximum length applied whenever present) and the rule of the code
  stand side by side.
\<close>

type_synonym storage_rule = "builtin \<times> (pyclass \<Rightarrow> metadata_attrs \<Rightarrow> satype)"

definition priority_with :: "(metadata_attrs \<Rightarrow> satype) \<Rightarrow> storage_rule list" where
  "priority_with string_rule =
     [(B_Enum, \<lambda>c md. sa_Enum c),
      (B_str, \<lambda>c md. string_rule md),
      (B_float, \<lambda>c md. Float),
      (B_bool, \<lambda>c md. Boolean),
      (B_int, \<lambda>c md. Integer),
      (B_datetime, \<lambda>c md. DateTime),
      (B_date, \<lambda>c md. Date),
      (B_timedelta, \<lambda>c md. Interval),
      (B_time, \<lambda>c md. Time),
      (B_bytes, \<lambda>c md. LargeBinary),
      (B_Decimal, \<lambda>c md. Numeric (max_digits md) (decimal_places md)),
      (B_IPv4Address, \<lambda>c md. AutoString None),
      (B_IPv4Network, \<lambda>c md. AutoString None),
      (B_IPv6Address, \<lambda>c md. AutoString None),
      (B_IPv6Network, \<lambda>c md. AutoString None),
      (B_Path, \<lambda>c md. AutoString None),
      (B_UUID, \<lambda>c md. GUID)]"

definition spec_string_rule :: "metadata_attrs \<Rightarrow> satype" where
  "spec_string_rule md = AutoString (max_length md)"

definition nonzero_string_rule :: "metadata_attrs \<Rightarrow> satype" where
  "nonzero_string_rule md =
     AutoString (case max_length md of
                   None \<Rightarrow> None
                 | Some n \<Rightarrow> if n = 0 then None else Some n)"

fun first_match :: "storage_rule list \<Rightarrow> pyclass \<Rightarrow> metadata_attrs \<Rightarrow> satype option" where
  "first_match [] c md = None"
| "first_match ((b, mk) # rules) c md =
     (if issubclass c b then Some (mk c md) else first_match rules c md)"

definition storage_type_by :: "storage_rule list \<Rightarrow> ann \<Rightarrow> pyclass \<Rightarrow> metadata_attrs \<Rightarrow> error + satype" where
  "storage_type_by rules type' c md =
     (case first_match rules c md of
        Some t \<Rightarrow> Inr t
      | None \<Rightarrow> Inl (UnmappedType type'))"

section \<open>Example classes and fields\<close>

definition py_int :: pyclass where "py_int = PyClass ''int'' [B_int]"
definition py_str :: pyclass where "py_str = PyClass ''str'' [B_str]"
definition py_bool :: pyclass where "py_bool = PyClass ''bool'' [B_bool, B_int]"
definition py_Decimal :: pyclass where "py_Decimal = PyClass ''Decimal'' [B_Decimal]"
definition py_dict :: pyclass where "py_dict = PyClass ''dict'' []"
definition Color :: pyclass where "Color = PyClass ''Color'' [B_str, B_Enum]"
definition Team :: pyclass where "Team = PyClass ''Team'' []"
definition Hero :: pyclass where "Hero = PyClass ''Hero'' []"

text \<open>A field as Pydantic builds it for a bare annotation: nothing set but the type.\<close>

definition bare_field :: "ann \<Rightarrow> FieldInfo" where
  "bare_field a =
     \<lparr>annotation = a, default_val = Undefined, default_factory = None, metadata = [],
      primary_key = None, nullable = None, foreign_key = None, unique = None, index = None,
      sa_type = None, sa_column = None, sa_column_args = None, sa_column_kwargs = None,
      original_default = None, field_title = None, field_description = None,
      field_alias = None\<rparr>"

definition Optional :: "ann \<Rightarrow> ann" where
  "Optional a = Generic O_Union [a, NoneType]"

definition List_of :: "ann \<Rightarrow> ann" where
  "List_of a = Generic O_list [a]"

section \<open>Table names\<close>

text \<open>
  \<^verbatim>\<open>SQLModel.__tablename__\<close> (main.py) is a declared attribute whose body is
  \<^verbatim>\<open>cls.__name__.lower()\<close>. Python's \<^verbatim>\<open>str.lower\<close> follows the Unicode case mapping, which
  is no part of the repository: it is the parameter \<open>str_lower\<close>. Strings are byte strings
  in UTF-8, so a name is ASCII exactly when each of its characters is below 128. On an
  ASCII string \<^verbatim>\<open>str.lower\<close> maps the letters A..Z to a..z and leaves every other character
  alone, which is \<open>ascii_lower\<close>; outside ASCII it changes other letters as well and may
  change the length. A class body that assigns \<^verbatim>\<open>__tablename__\<close> itself shadows the
  inherited declared attribute.
\<close>

definition ascii_lower_char :: "char \<Rightarrow> char" where
  "ascii_lower_char c =
     (let n = (of_char c :: nat)
      in if 65 \<le> n \<and> n \<le> 90 then char_of (n + 32) else c)"

definition ascii_lower :: "string \<Rightarrow> string" where
  "ascii_lower s = map ascii_lower_char s"

definition is_ascii :: "string \<Rightarrow> bool" where
  "is_ascii s = list_all (\<lambda>c. (of_char c :: nat) < 128) s"

definition is_upper :: "char \<Rightarrow> bool" where
  "is_upper c = (65 \<le> (of_char c :: nat) \<and> (of_char c :: nat) \<le> 90)"

record class_header =
  cls_name :: string
  explicit_tablename :: "string option"

definition declared_tablename :: "(string \<Rightarrow> string) \<Rightarrow> class_header \<Rightarrow> string" where
  "declared_tablename str_lower cls = str_lower (cls_name cls)"

definition tablename :: "(string \<Rightarrow> string) \<Rightarrow> class_header \<Rightarrow> string" where
  "tablename str_lower cls =
     (case explicit_tablename cls of
        Some t \<Rightarrow> t
      | None \<Rightarrow> declared_tablename str_lower cls)"

definition decimal_field :: FieldInfo where
  "decimal_field = (bare_field (Class py_Decimal))
     \<lparr>metadata := [PydanticMetadata
        \<lparr>max_length = None, max_digits = Some 5, decimal_places = Some 2\<rparr>]\<rparr>"

definition zero_decimal_field :: FieldInfo where
  "zero_decimal_field = (bare_field (Class py_Decimal))
     \<lparr>metadata := [PydanticMetadata
        \<lparr>max_length = None, max_digits = Some 0, decimal_places = Some 0\<rparr>]\<rparr>"

definition empty_string_field :: FieldInfo where
  "empty_string_field = (bare_field (Class py_str))
     \<lparr>metadata := [PydanticMetadata
        \<lparr>max_length = Some 0, max_digits = None, decimal_places = None\<rparr>]\<rparr>"

section \<open>Relationships\<close>

datatype relkw = RStr string | RTable string | ROther string

text \<open>A link model, with the table \<^verbatim>\<open>inspect(link_model).local_table\<close> finds, if any.\<close>

record link =
  link_name :: string
  local_table :: "string option"

text \<open>
  \<^verbatim>\<open>RelationshipInfo\<close> (main.py). \<open>sa_relationship\<close> is the explicit, fully configured
  relationship object, kept by its representation.
\<close>

record RelationshipInfo =
  back_populates :: "string option"
  link_model :: "link option"
  sa_relationship :: "string option"
  sa_relationship_args :: "string list option"
  sa_relationship_kwargs :: "(string \<times> relkw) list option"

text \<open>
  \<^verbatim>\<open>get_relationship_to\<close> of compat.py (v2 branch), the module main.py imports the name
  from. An origin other than \<^verbatim>\<open>Union\<close> and \<^verbatim>\<open>list\<close> is itself handed on as the target.
\<close>

definition first_arg :: "ann \<Rightarrow> error + ann" where
  "first_arg anno =
     (case get_args anno of
        [] \<Rightarrow> Inl IndexError
      | a # _ \<Rightarrow> Inr a)"

definition forward_arg :: "ann \<Rightarrow> ann" where
  "forward_arg a = (case a of ForwardRef n \<Rightarrow> Str n | _ \<Rightarrow> a)"

definition compat_get_relationship_to :: "string \<Rightarrow> RelationshipInfo \<Rightarrow> ann \<Rightarrow> error + ann" where
  "compat_get_relationship_to name rel_info anno =
     (case (case get_origin anno of
              None \<Rightarrow> Inr anno
            | Some orig \<Rightarrow>
                if orig = O_Union then first_arg anno
                else if orig = O_list then first_arg anno
                else Inr (origin_object orig)) of
        Inl e \<Rightarrow> Inl e
      | Inr relationship_to \<Rightarrow> Inr (forward_arg relationship_to))"

text \<open>
  \<^verbatim>\<open>get_relationship_to\<close> of \<^verbatim>\<open>_compat.py\<close> (v2 branch) calls itself on the unwrapped
  anno. For an origin that is neither a union nor \<^verbatim>\<open>list\<close> it calls itself on the
  same anno, which ends at the interpreter's recursion limit: the fuel is the
  number of nested calls left, and running out of it is \<^verbatim>\<open>RecursionError\<close>.
  \<^verbatim>\<open>arg1, arg2 = use_annotation\<close> raises \<^verbatim>\<open>ValueError\<close> on fewer than two members.
\<close>

fun ucompat_get_relationship_to_fuel ::
  "nat \<Rightarrow> string \<Rightarrow> RelationshipInfo \<Rightarrow> ann \<Rightarrow> error + ann" where
  "ucompat_get_relationship_to_fuel 0 name rel_info anno = Inl RecursionError"
| "ucompat_get_relationship_to_fuel (Suc n) name rel_info anno =
     (case get_origin anno of
        None \<Rightarrow>
          (case anno of
             ForwardRef arg \<Rightarrow> ucompat_get_relationship_to_fuel n name rel_info (Str arg)
           | _ \<Rightarrow> Inr anno)
      | Some orig \<Rightarrow>
          if is_union_type orig then
            (let use_annotation = get_args anno in
             if length use_annotation > 2 then
               Inl (ValueError ''Cannot have a (non-optional) union as a SQLAlchemy field'')
             else
               (case use_annotation of
                  [arg1, arg2] \<Rightarrow>
                    if arg1 = NoneType \<and> arg2 \<noteq> NoneType then
                      ucompat_get_relationship_to_fuel n name rel_info arg2
                    else if arg2 = NoneType \<and> arg1 \<noteq> NoneType then
                      ucompat_get_relationship_to_fuel n name rel_info arg1
                    else
                      Inl (ValueError
                        ''Cannot have a Union of None and None as a SQLAlchemy field'')
                | _ \<Rightarrow> Inl (ValueError ''not enough values to unpack (expected 2)'')))
          else if orig = O_list then
            (case first_arg anno of
               Inl e \<Rightarrow> Inl e
             | Inr a \<Rightarrow> ucompat_get_relationship_to_fuel n name rel_info a)
          else ucompat_get_relationship_to_fuel n name rel_info anno)"

definition recursion_limit :: nat where
  "recursion_limit = 1000"

definition ucompat_get_relationship_to :: "string \<Rightarrow> RelationshipInfo \<Rightarrow> ann \<Rightarrow> error + ann" where
  "ucompat_get_relationship_to = ucompat_get_relationship_to_fuel recursion_limit"

text \<open>
  A direct relationship anno names its target: a class, or a class by name (a plain
  string or a \<^verbatim>\<open>ForwardRef\<close>, whose name is what resolution returns).
\<close>

definition is_direct_target :: "ann \<Rightarrow> bool" where
  "is_direct_target a =
     (case a of Class _ \<Rightarrow> True | ForwardRef _ \<Rightarrow> True | Str _ \<Rightarrow> True | _ \<Rightarrow> False)"

text \<open>A union of two or more members none of which is \<^verbatim>\<open>None\<close>.\<close>

definition non_optional_union :: "ann \<Rightarrow> bool" where
  "non_optional_union a =
     (case a of
        Generic orig args \<Rightarrow> orig = O_Union \<and> 2 \<le> length args \<and> NoneType \<notin> set args
      | _ \<Rightarrow> False)"

definition no_relationship_options :: RelationshipInfo where
  "no_relationship_options =
     \<lparr>back_populates = None, link_model = None, sa_relationship = None,
      sa_relationship_args = None, sa_relationship_kwargs = None\<rparr>"

section \<open>Model classes and relationship wiring\<close>

datatype cfgval = CBool bool | CNone | CObj string

datatype attrval =
    RelationshipProperty string
  | relationship ann "string list" "(string \<times> relkw) list"
  | ColumnAttr Column
  | OtherAttr string

datatype metaclass_init = DeclarativeMeta_init | ModelMetaclass_init

text \<open>
  A class as the metaclass sees it: its configuration dictionary (if it has one), its
  own relationships, its annotations, the attributes set on it, and which parent
  initialiser \<^verbatim>\<open>SQLModelMetaclass.__init__\<close> ended with.
\<close>

record model_class =
  mc_name :: string
  model_config :: "(string \<times> cfgval) list option"
  sqlmodel_relationships :: "(string \<times> RelationshipInfo) list"
  mc_annotations :: "(string \<times> ann) list"
  mc_attrs :: "(string \<times> attrval) list"
  initialised_by :: "metaclass_init option"

definition truthy :: "cfgval \<Rightarrow> bool" where
  "truthy v = (case v of CBool b \<Rightarrow> b | CNone \<Rightarrow> False | CObj _ \<Rightarrow> True)"

text \<open>\<^verbatim>\<open>cls_is_table\<close> (\<^verbatim>\<open>_compat.py\<close>, v2); an empty configuration is falsy.\<close>

definition cls_is_table :: "model_class \<Rightarrow> bool" where
  "cls_is_table cls =
     (case model_config cls of
        None \<Rightarrow> False
      | Some config \<Rightarrow>
          if config = [] then False
          else (case map_of config ''table'' of None \<Rightarrow> False | Some v \<Rightarrow> truthy v))"

text \<open>One turn of the loop over the relationships in \<^verbatim>\<open>SQLModelMetaclass.__init__\<close>.\<close>

definition wire_relationship :: "model_class \<Rightarrow> string \<times> RelationshipInfo \<Rightarrow> error + model_class" where
  "wire_relationship cls item =
     (let rel_name = fst item; rel_info = snd item in
      case sa_relationship rel_info of
        Some r \<Rightarrow>
          Inr (cls\<lparr>mc_attrs := AList.update rel_name (RelationshipProperty r) (mc_attrs cls)\<rparr>)
      | None \<Rightarrow>
          (case map_of (mc_annotations cls) rel_name of
             None \<Rightarrow> Inl (KeyError rel_name)
           | Some raw_ann \<Rightarrow>
               (case (if get_origin raw_ann = Some O_Mapped
                      then (case first_arg raw_ann of
                              Inl e \<Rightarrow> Inl e
                            | Inr a \<Rightarrow> Inr (a, mc_annotations cls))
                      else Inr (raw_ann,
                             AList.update rel_name (Generic O_Mapped [raw_ann])
                               (mc_annotations cls))) of
                  Inl e \<Rightarrow> Inl e
                | Inr (ann', annotations') \<Rightarrow>
                    (case compat_get_relationship_to rel_name rel_info ann' of
                       Inl e \<Rightarrow> Inl e
                     | Inr relationship_to \<Rightarrow>
                         (let rel_kwargs0 =
                                (case back_populates rel_info of
                                   None \<Rightarrow> []
                                 | Some bp \<Rightarrow>
                                     if bp \<noteq> [] then [(''back_populates'', RStr bp)] else [])
                          in case (case link_model rel_info of
                                     None \<Rightarrow> Inr rel_kwargs0
                                   | Some lm \<Rightarrow>
                                       (case local_table lm of
                                          None \<Rightarrow>
                                            Inl (RuntimeError
                                              (''Couldn't find the secondary table for model ''
                                                 @ link_name lm))
                                        | Some tab \<Rightarrow>
                                            Inr (AList.update ''secondary'' (RTable tab)
                                                   rel_kwargs0))) of
                               Inl e \<Rightarrow> Inl e
                             | Inr rel_kwargs1 \<Rightarrow>
                                 (let rel_args =
                                        (case sa_relationship_args rel_info of
                                           None \<Rightarrow> []
                                         | Some xs \<Rightarrow> xs);
                                      rel_kwargs2 =
                                        (case sa_relationship_kwargs rel_info of
                                           None \<Rightarrow> rel_kwargs1
                                         | Some extra \<Rightarrow> dict_update rel_kwargs1 extra)
                                  in Inr (cls\<lparr>mc_annotations := annotations',
                                              mc_attrs :=
                                                AList.update rel_name
                                                  (relationship relationship_to rel_args
                                                     rel_kwargs2)
                                                  (mc_attrs cls)\<rparr>)))))))"

fun wire_relationships ::
  "model_class \<Rightarrow> (string \<times> RelationshipInfo) list \<Rightarrow> error + model_class" where
  "wire_relationships cls [] = Inr cls"
| "wire_relationships cls (item # items) =
     (case wire_relationship cls item of
        Inl e \<Rightarrow> Inl e
      | Inr cls' \<Rightarrow> wire_relationships cls' items)"

text \<open>
  \<^verbatim>\<open>SQLModelMetaclass.__init__\<close>: \<open>bases\<close> are the direct base classes of the class
  statement.
\<close>

definition SQLModelMetaclass_init :: "model_class \<Rightarrow> model_class list \<Rightarrow> error + model_class" where
  "SQLModelMetaclass_init cls bases =
     (let base_is_table = list_ex cls_is_table bases in
      if cls_is_table cls \<and> \<not> base_is_table then
        (case wire_relationships cls (sqlmodel_relationships cls) of
           Inl e \<Rightarrow> Inl e
         | Inr cls' \<Rightarrow> Inr (cls'\<lparr>initialised_by := Some DeclarativeMeta_init\<rparr>))
      else Inr (cls\<lparr>initialised_by := Some ModelMetaclass_init\<rparr>))"

text \<open>
  A table class with a relationship that carries an explicit relationship object, and a
  class derived from it, whose configuration inherits \<^verbatim>\<open>table\<close>.
\<close>

definition heroes_override :: RelationshipInfo where
  "heroes_override = no_relationship_options\<lparr>sa_relationship := Some ''heroes_rel''\<rparr>"

definition team_class :: model_class where
  "team_class =
     \<lparr>mc_name = ''Team'', model_config = Some [(''table'', CBool True)],
      sqlmodel_relationships = [(''heroes'', heroes_override)],
      mc_annotations = [(''heroes'', List_of (ForwardRef ''Hero''))],
      mc_attrs = [], initialised_by = None\<rparr>"

definition team_read_class :: model_class where
  "team_read_class =
     \<lparr>mc_name = ''TeamRead'', model_config = Some [(''table'', CBool True)],
      sqlmodel_relationships = [], mc_annotations = [], mc_attrs = [],
      initialised_by = None\<rparr>"

section \<open>Declaring a field\<close>

text \<open>
  The keyword arguments \<^verbatim>\<open>FieldInfo.__init__\<close> (main.py) pops. For each keyword: \<open>None\<close>
  when the caller did not pass it (\<^verbatim>\<open>kwargs.pop\<close> then gives its default), \<open>Some None\<close>
  when \<^verbatim>\<open>Undefined\<close> was passed, \<open>Some (Some v)\<close> for a value.
\<close>

record field_kwargs =
  kw_default :: pyval
  kw_default_factory :: "string option"
  kw_metadata :: "meta list"
  kw_primary_key :: "bool option option"
  kw_nullable :: "bool option option"
  kw_foreign_key :: "string option option"
  kw_unique :: "bool option option"
  kw_index :: "bool option option"
  kw_sa_type :: "satype option option"
  kw_sa_column :: "Column option option"
  kw_sa_column_args :: "colarg list option option"
  kw_sa_column_kwargs :: "(string \<times> kwval) list option option"

definition pop :: "'a option \<Rightarrow> 'a \<Rightarrow> 'a" where
  "pop passed dflt = (case passed of None \<Rightarrow> dflt | Some v \<Rightarrow> v)"

text \<open>The chain of checks under \<^verbatim>\<open>if sa_column is not Undefined\<close>, in its order.\<close>

definition sa_column_conflict ::
  "colarg list option \<Rightarrow> (string \<times> kwval) list option \<Rightarrow> bool option \<Rightarrow> bool option
     \<Rightarrow> string option \<Rightarrow> bool option \<Rightarrow> bool option \<Rightarrow> satype option \<Rightarrow> error option" where
  "sa_column_conflict args' kwargs' primary_key' nullable' foreign_key' unique' index' sa_type' =
     (if args' \<noteq> None then
        Some (RuntimeError
          ''Passing sa_column_args is not supported when also passing a sa_column'')
      else if kwargs' \<noteq> None then
        Some (RuntimeError
          ''Passing sa_column_kwargs is not supported when also passing a sa_column'')
      else if primary_key' \<noteq> None then
        Some (RuntimeError
          ''Passing primary_key is not supported when also passing a sa_column'')
      else if nullable' \<noteq> None then
        Some (RuntimeError
          ''Passing nullable is not supported when also passing a sa_column'')
      else if foreign_key' \<noteq> None then
        Some (RuntimeError
          ''Passing foreign_key is not supported when also passing a sa_column'')
      else if unique' \<noteq> None then
        Some (RuntimeError
          ''Passing unique is not supported when also passing a sa_column'')
      else if index' \<noteq> None then
        Some (RuntimeError
          ''Passing index is not supported when also passing a sa_column'')
      else if sa_type' \<noteq> None then
        Some (RuntimeError
          ''Passing sa_type is not supported when also passing a sa_column'')
      else None)"

text \<open>
  \<^verbatim>\<open>FieldInfo.__init__\<close>. The constructor of the validation library's field class, called
  after the checks, is the parameter \<open>super_init\<close>: it may refuse the default and the
  default factory. The annotation of a new descriptor is not yet known.
\<close>

definition FieldInfo_init ::
  "(pyval \<Rightarrow> string option \<Rightarrow> error option) \<Rightarrow> field_kwargs \<Rightarrow> error + FieldInfo" where
  "FieldInfo_init super_init kw =
     (let primary_key' = pop (kw_primary_key kw) (Some False);
          nullable' = pop (kw_nullable kw) None;
          foreign_key' = pop (kw_foreign_key kw) None;
          unique' = pop (kw_unique kw) (Some False);
          index' = pop (kw_index kw) None;
          sa_type' = pop (kw_sa_type kw) None;
          sa_column' = pop (kw_sa_column kw) None;
          sa_column_args' = pop (kw_sa_column_args kw) None;
          sa_column_kwargs' = pop (kw_sa_column_kwargs kw) None
      in case (if sa_column' \<noteq> None
               then sa_column_conflict sa_column_args' sa_column_kwargs' primary_key'
                      nullable' foreign_key' unique' index' sa_type'
               else None) of
           Some e \<Rightarrow> Inl e
         | None \<Rightarrow>
             (case super_init (kw_default kw) (kw_default_factory kw) of
                Some e \<Rightarrow> Inl e
              | None \<Rightarrow>
                  Inr \<lparr>annotation = NoneValue, default_val = kw_default kw,
                       default_factory = kw_default_factory kw, metadata = kw_metadata kw,
                       primary_key = primary_key', nullable = nullable',
                       foreign_key = foreign_key', unique = unique', index = index',
                       sa_type = sa_type', sa_column = sa_column',
                       sa_column_args = sa_column_args',
                       sa_column_kwargs = sa_column_kwargs', original_default = None,
                       field_title = None, field_description = None, field_alias = None\<rparr>))"

text \<open>
  \<^verbatim>\<open>Field\<close> (main.py), here \<open>Field_decl\<close>, passes every one of its parameters on by keyword, \<^verbatim>\<open>Undefined\<close> for
  those the declaration left out. Its parameters have the names of the descriptor's
  attributes and are given here as a record of that type. \<^verbatim>\<open>post_init_field_info\<close> does
  nothing in the v2 branch.
\<close>

definition Field_decl :: "(pyval \<Rightarrow> string option \<Rightarrow> error option) \<Rightarrow> FieldInfo \<Rightarrow> error + FieldInfo" where
  "Field_decl super_init params =
     FieldInfo_init super_init
       \<lparr>kw_default = default_val params, kw_default_factory = default_factory params,
        kw_metadata = metadata params,
        kw_primary_key = Some (primary_key params), kw_nullable = Some (nullable params),
        kw_foreign_key = Some (foreign_key params), kw_unique = Some (unique params),
        kw_index = Some (index params), kw_sa_type = Some (sa_type params),
        kw_sa_column = Some (sa_column params),
        kw_sa_column_args = Some (sa_column_args params),
        kw_sa_column_kwargs = Some (sa_column_kwargs params)\<rparr>"

text \<open>
  A declaration supplies a shorthand mapping hint when one of these parameters is not
  \<^verbatim>\<open>Undefined\<close>.
\<close>

definition supplies_hint :: "FieldInfo \<Rightarrow> bool" where
  "supplies_hint params =
     (primary_key params \<noteq> None \<or> nullable params \<noteq> None \<or> foreign_key params \<noteq> None
      \<or> unique params \<noteq> None \<or> index params \<noteq> None \<or> sa_type params \<noteq> None
      \<or> sa_column_args params \<noteq> None \<or> sa_column_kwargs params \<noteq> None)"

text \<open>
  The body of a class statement runs its \<^verbatim>\<open>Field(...)\<close> calls in order, before the
  metaclass is called with the resulting dictionary; the first call that raises ends the
  class statement, and no dictionary reaches the metaclass.
\<close>

fun class_body ::
  "(pyval \<Rightarrow> string option \<Rightarrow> error option) \<Rightarrow> (string \<times> FieldInfo) list
     \<Rightarrow> error + (string \<times> FieldInfo) list" where
  "class_body super_init [] = Inr []"
| "class_body super_init ((k, params) # rest) =
     (case Field_decl super_init params of
        Inl e \<Rightarrow> Inl e
      | Inr fi \<Rightarrow>
          (case class_body super_init rest of
             Inl e \<Rightarrow> Inl e
           | Inr d \<Rightarrow> Inr ((k, fi) # d)))"

text \<open>The validation library's own check, as Pydantic has it.\<close>

definition pydantic_init :: "pyval \<Rightarrow> string option \<Rightarrow> error option" where
  "pydantic_init d fac =
     (if d \<noteq> Undefined \<and> fac \<noteq> None
      then Some (TypeError ''cannot specify both default and default_factory'')
      else None)"

definition manual_column :: Column where
  "manual_column = \<lparr>col_type = Integer, col_args = [], col_kwargs = []\<rparr>"

section \<open>Instances: attribute writes and construction\<close>

text \<open>
  What the two layers are seen to do: a write through the mapping layer
  (\<^verbatim>\<open>set_attribute\<close>) and a write through the validation layer
  (\<^verbatim>\<open>BaseModel.__setattr__\<close>), each with the name and the value written.
\<close>

datatype event = MappingWrite string pyval | ValidationWrite string pyval

text \<open>
  An instance: whether its class is a table class (\<^verbatim>\<open>get_config_value(self, "table", False)\<close>),
  the names the mapping layer instruments (\<^verbatim>\<open>is_instrumented(self, name)\<close>), the names of
  its class's relationships and fields, its \<^verbatim>\<open>__dict__\<close>, its set of explicitly assigned
  fields, and the writes seen so far.
\<close>

record model_instance =
  inst_table :: bool
  instrumented :: "string list"
  inst_relationships :: "string list"
  model_fields :: "string list"
  inst_dict :: "(string \<times> pyval) list"
  fields_set :: "string list"
  trace :: "event list"

definition set_attribute :: "model_instance \<Rightarrow> string \<Rightarrow> pyval \<Rightarrow> model_instance" where
  "set_attribute self name v =
     self\<lparr>inst_dict := AList.update name v (inst_dict self),
          trace := trace self @ [MappingWrite name v]\<rparr>"

text \<open>
  The validation layer's setter: it may refuse the value, or store it, possibly
  normalised, and record the name as explicitly assigned. \<open>assign\<close> is its validation.
\<close>

definition BaseModel_setattr ::
  "(string \<Rightarrow> pyval \<Rightarrow> error + pyval) \<Rightarrow> model_instance \<Rightarrow> string \<Rightarrow> pyval
     \<Rightarrow> error option \<times> model_instance" where
  "BaseModel_setattr assign self name v =
     (case assign name v of
        Inl e \<Rightarrow> (Some e, self)
      | Inr v' \<Rightarrow>
          (None, self\<lparr>inst_dict := AList.update name v' (inst_dict self),
                      fields_set := List.insert name (fields_set self),
                      trace := trace self @ [ValidationWrite name v']\<rparr>))"

text \<open>
  \<^verbatim>\<open>SQLModel.__setattr__\<close> (main.py). The result is the exception raised, if any, and the
  instance as the call leaves it.
\<close>

definition SQLModel_setattr ::
  "(string \<Rightarrow> pyval \<Rightarrow> error + pyval) \<Rightarrow> model_instance \<Rightarrow> string \<Rightarrow> pyval
     \<Rightarrow> error option \<times> model_instance" where
  "SQLModel_setattr assign self name v =
     (if name = ''_sa_instance_state'' then
        (None, self\<lparr>inst_dict := AList.update name v (inst_dict self)\<rparr>)
      else
        (let self1 = (if inst_table self \<and> name \<in> set (instrumented self)
                      then set_attribute self name v else self)
         in if name \<notin> set (inst_relationships self1)
            then BaseModel_setattr assign self1 name v
            else (None, self1)))"

fun setattr_all ::
  "(string \<Rightarrow> pyval \<Rightarrow> error + pyval) \<Rightarrow> model_instance \<Rightarrow> (string \<times> pyval) list
     \<Rightarrow> error option \<times> model_instance" where
  "setattr_all assign self [] = (None, self)"
| "setattr_all assign self ((k, v) # rest) =
     (case SQLModel_setattr assign self k v of
        (Some e, self') \<Rightarrow> (Some e, self')
      | (None, self') \<Rightarrow> setattr_all assign self' rest)"

text \<open>
  \<^verbatim>\<open>SQLModel.__init__\<close> (main.py). The validation library is the parameter \<open>validate\<close>: from
  the keyword arguments it computes the values, the set of fields given, and one
  validation error if anything failed (\<^verbatim>\<open>validate_model\<close>). In the v2 branch the
  constructor of \<^verbatim>\<open>BaseModel\<close> is called, which raises that error and otherwise stores
  values and fields set; in the v1 branch the error is raised only for a class that is
  not a table class. The keys that are not fields are visited in the order given.
\<close>

type_synonym validator =
  "(string \<times> pyval) list \<Rightarrow> (string \<times> pyval) list \<times> string list \<times> error option"

definition set_relationships ::
  "(string \<Rightarrow> pyval \<Rightarrow> error + pyval) \<Rightarrow> model_instance \<Rightarrow> (string \<times> pyval) list \<Rightarrow> string list
     \<Rightarrow> error option \<times> model_instance" where
  "set_relationships assign self data field_keys =
     setattr_all assign self
       (filter (\<lambda>kv. fst kv \<notin> set field_keys \<and> fst kv \<in> set (inst_relationships self)) data)"

definition SQLModel_init_v2 ::
  "validator \<Rightarrow> (string \<Rightarrow> pyval \<Rightarrow> error + pyval) \<Rightarrow> model_instance \<Rightarrow> (string \<times> pyval) list
     \<Rightarrow> error option \<times> model_instance" where
  "SQLModel_init_v2 validate assign self data =
     (let old_dict = inst_dict self in
      case validate data of
        (values, fields_set', Some validation_error) \<Rightarrow> (Some validation_error, self)
      | (values, fields_set', None) \<Rightarrow>
          (let self1 = self\<lparr>inst_dict := dict_update old_dict values,
                             fields_set := fields_set'\<rparr>
           in set_relationships assign self1 data (model_fields self1)))"

definition SQLModel_init_v1 ::
  "validator \<Rightarrow> (string \<Rightarrow> pyval \<Rightarrow> error + pyval) \<Rightarrow> model_instance \<Rightarrow> (string \<times> pyval) list
     \<Rightarrow> error option \<times> model_instance" where
  "SQLModel_init_v1 validate assign self data =
     (case validate data of
        (values, fields_set', validation_error) \<Rightarrow>
          if \<not> inst_table self \<and> validation_error \<noteq> None then (validation_error, self)
          else
            (case setattr_all assign self values of
               (Some e, self1) \<Rightarrow> (Some e, self1)
             | (None, self1) \<Rightarrow>
                 set_relationships assign (self1\<lparr>fields_set := fields_set'\<rparr>) data
                   (map fst values)))"

definition SQLModel_init ::
  "bool \<Rightarrow> validator \<Rightarrow> (string \<Rightarrow> pyval \<Rightarrow> error + pyval) \<Rightarrow> model_instance
     \<Rightarrow> (string \<times> pyval) list \<Rightarrow> error option \<times> model_instance" where
  "SQLModel_init IS_PYDANTIC_V2 validate assign self data =
     (if IS_PYDANTIC_V2 then SQLModel_init_v2 validate assign self data
      else SQLModel_init_v1 validate assign self data)"

text \<open>
  A table instance as \<^verbatim>\<open>__new__\<close> leaves it, and a validation layer for a class with the
  fields \<^verbatim>\<open>name: str\<close> and \<^verbatim>\<open>age: int\<close> that checks every field and reports all failures in
  one error.
\<close>

definition hero_instance :: "bool \<Rightarrow> model_instance" where
  "hero_instance table =
     \<lparr>inst_table = table, instrumented = (if table then [''name'', ''age'', ''team''] else []),
      inst_relationships = [''team''], model_fields = [''name'', ''age''],
      inst_dict = [], fields_set = [], trace = []\<rparr>"

definition is_int_literal :: "pyval \<Rightarrow> bool" where
  "is_int_literal v =
     (case v of
        Val s \<Rightarrow> s \<noteq> [] \<and> list_all (\<lambda>c. 48 \<le> (of_char c :: nat) \<and> (of_char c :: nat) \<le> 57) s
      | _ \<Rightarrow> False)"

definition is_str_literal :: "pyval \<Rightarrow> bool" where
  "is_str_literal v = (case v of Val s \<Rightarrow> True | _ \<Rightarrow> False)"

definition check_field ::
  "(string \<times> pyval) list \<Rightarrow> string \<Rightarrow> (pyval \<Rightarrow> bool) \<Rightarrow> string
     \<Rightarrow> (string \<times> pyval) list \<times> (string \<times> string) list" where
  "check_field data k ok msg =
     (case map_of data k of
        None \<Rightarrow> ([], [(k, ''field required'')])
      | Some v \<Rightarrow> if ok v then ([(k, v)], []) else ([], [(k, msg)]))"

definition hero_validate :: validator where
  "hero_validate data =
     (let n = check_field data ''name'' is_str_literal ''str type expected'';
          a = check_field data ''age'' is_int_literal ''value is not a valid integer'';
          values = fst n @ fst a;
          errors = snd n @ snd a
      in (values, map fst values,
          if errors = [] then None else Some (ValidationError errors)))"

definition accept_assignment :: "string \<Rightarrow> pyval \<Rightarrow> error + pyval" where
  "accept_assignment k v = Inr v"

section \<open>Class creation: placeholder defaults\<close>

text \<open>
  What a class body binds a name to: \<^verbatim>\<open>None\<close>, a field descriptor, a relationship
  descriptor, a configuration dictionary, or another value.
\<close>

datatype cdval =
    CD_None
  | CD_Field FieldInfo
  | CD_Relationship RelationshipInfo
  | CD_Config "(string \<times> cfgval) list"
  | CD_Value pyval

text \<open>
  \<^verbatim>\<open>set_empty_defaults\<close> (compat.py, v2). \<open>needs_placeholder\<close> is its test on a
  descriptor: \<^verbatim>\<open>value.default in (PydanticUndefined, Ellipsis) and value.default_factory is None\<close>.
  \<open>set_empty_default\<close> is one turn of its loop over the annotated names.
\<close>

definition needs_placeholder :: "FieldInfo \<Rightarrow> bool" where
  "needs_placeholder v =
     ((default_val v = Undefined \<or> default_val v = Ellipsis) \<and> default_factory v = None)"

definition with_original_default :: "FieldInfo \<Rightarrow> FieldInfo" where
  "with_original_default v =
     v\<lparr>original_default := Some (default_val v), default_val := PyNone\<rparr>"

definition set_empty_default :: "string \<Rightarrow> (string \<times> cdval) list \<Rightarrow> (string \<times> cdval) list" where
  "set_empty_default key class_dict =
     (case map_of class_dict key of
        None \<Rightarrow> AList.update key CD_None class_dict
      | Some (CD_Value Undefined) \<Rightarrow> AList.update key CD_None class_dict
      | Some (CD_Field v) \<Rightarrow>
          if needs_placeholder v
          then AList.update key (CD_Field (with_original_default v)) class_dict
          else class_dict
      | Some _ \<Rightarrow> class_dict)"

definition set_empty_defaults ::
  "(string \<times> ann) list \<Rightarrow> (string \<times> cdval) list \<Rightarrow> (string \<times> cdval) list" where
  "set_empty_defaults annotations class_dict =
     foldl (\<lambda>d key. set_empty_default key d) class_dict (map fst annotations)"

text \<open>
  Modelled from the spec: \<^verbatim>\<open>class_dict_is_table\<close>, which main.py imports from the
  compatibility module and which is in neither of its two files. The specification gives
  the storage-backed flag the priority: explicit per-class configuration value, then the
  keyword supplied at declaration, then false.
\<close>

definition class_dict_is_table ::
  "(string \<times> cdval) list \<Rightarrow> (string \<times> cfgval) list \<Rightarrow> bool" where
  "class_dict_is_table class_dict kwargs =
     (case (case map_of class_dict ''model_config'' of
              Some (CD_Config config) \<Rightarrow> map_of config ''table''
            | _ \<Rightarrow> None) of
        Some v \<Rightarrow> truthy v
      | None \<Rightarrow> (case map_of kwargs ''table'' of Some v \<Rightarrow> truthy v | None \<Rightarrow> False))"

text \<open>
  The first part of \<^verbatim>\<open>SQLModelMetaclass.__new__\<close> (main.py): the relationships are taken
  out of the class body and out of the annotations, and for a table class the
  placeholders are set in the dictionary handed to the validation library. The result
  is that dictionary, the annotations that go with it, and the relationships.
\<close>

definition is_relationship_entry :: "string \<times> cdval \<Rightarrow> bool" where
  "is_relationship_entry kv = (case snd kv of CD_Relationship _ \<Rightarrow> True | _ \<Rightarrow> False)"

definition split_class_dict ::
  "(string \<times> cdval) list \<Rightarrow> (string \<times> ann) list \<Rightarrow> (string \<times> cfgval) list
     \<Rightarrow> (string \<times> cdval) list \<times> (string \<times> ann) list \<times> (string \<times> cdval) list" where
  "split_class_dict class_dict original_annotations kwargs =
     (let relationships = filter is_relationship_entry class_dict;
          dict_for_pydantic = filter (\<lambda>kv. \<not> is_relationship_entry kv) class_dict;
          pydantic_annotations =
            filter (\<lambda>ka. fst ka \<notin> fst ` set relationships) original_annotations;
          dict_used = AList.update ''__weakref__'' CD_None dict_for_pydantic
      in (if class_dict_is_table class_dict kwargs
          then set_empty_defaults pydantic_annotations dict_used
          else dict_used,
          pydantic_annotations, relationships))"

text \<open>
  The validation library's notion of a field with a default: the class dictionary binds
  the name to a value other than \<^verbatim>\<open>Undefined\<close> and other than \<^verbatim>\<open>...\<close> (\<^verbatim>\<open>Ellipsis\<close>, its
  marker of a required field), and to a descriptor only if that has a default, other
  than these two, or a factory. A field without a default is required.
\<close>

definition entry_has_default :: "cdval option \<Rightarrow> bool" where
  "entry_has_default e =
     (case e of
        None \<Rightarrow> False
      | Some (CD_Value Undefined) \<Rightarrow> False
      | Some (CD_Value Ellipsis) \<Rightarrow> False
      | Some (CD_Field v) \<Rightarrow> \<not> needs_placeholder v
      | Some _ \<Rightarrow> True)"

text \<open>What one turn of the loop makes of the entry of its name (used in the proofs).\<close>

definition placeholder_entry :: "cdval option \<Rightarrow> cdval option" where
  "placeholder_entry e =
     (case e of
        None \<Rightarrow> Some CD_None
      | Some (CD_Value Undefined) \<Rightarrow> Some CD_None
      | Some (CD_Field v) \<Rightarrow>
          if needs_placeholder v then Some (CD_Field (with_original_default v)) else e
      | Some _ \<Rightarrow> e)"

text \<open>
  The validation library on keyword arguments that leave fields out, as far as the
  placeholders are concerned: every field of the class that is required and not given is
  reported, all in one error; the values given are taken as they are.
\<close>

definition required_validator ::
  "(string \<times> ann) list \<Rightarrow> (string \<times> cdval) list \<Rightarrow> validator" where
  "required_validator annotations class_dict data =
     (let names = map fst annotations;
          missing = filter (\<lambda>k. map_of data k = None
                                \<and> \<not> entry_has_default (map_of class_dict k)) names;
          values = filter (\<lambda>kv. fst kv \<in> set names) data
      in (values, map fst values,
          if missing = [] then None
          else Some (ValidationError (map (\<lambda>k. (k, ''field required'')) missing))))"

section \<open>Lemmas about the model\<close>

lemma ascii_lower_char_not_upper: "\<not> is_upper (ascii_lower_char c)"
  by (simp add: ascii_lower_char_def is_upper_def Let_def)

lemma ascii_lower_char_fixes_non_upper: "\<not> is_upper c \<Longrightarrow> ascii_lower_char c = c"
  by (auto simp: ascii_lower_char_def is_upper_def Let_def)

lemma dispatch_is_first_match:
  "dispatch_type t c md = storage_type_by (priority_with nonzero_string_rule) t c md"
  by (simp add: dispatch_type_def storage_type_by_def priority_with_def
      nonzero_string_rule_def split: option.splits)

lemma map_of_dict_update_other:
  "k \<notin> fst ` set items \<Longrightarrow> map_of (dict_update d items) k = map_of d k"
  unfolding dict_update_def
  by (induction items arbitrary: d) (auto simp: update_conv')

lemma noneable_without_override:
  "nullable field = None \<Longrightarrow>
     ucompat_is_field_noneable field =
       (is_optional_annotation (annotation field) \<or> none_typed_with_default field)"
  by (auto simp: ucompat_is_field_noneable_def none_typed_with_default_def is_required_def)

lemma derived_nullable_cases:
  "derived_nullable field =
     (case nullable field of
        Some b \<Rightarrow> b
      | None \<Rightarrow>
          primary_key field \<noteq> Some True
          \<and> (is_optional_annotation (annotation field) \<or> none_typed_with_default field))"
  using noneable_without_override [of field]
  by (auto simp: derived_nullable_def Let_def split: option.splits)

text \<open>
  The derivation reads the annotation, the defaults, the metadata and the mapping hints
  of a descriptor and nothing else.
\<close>

lemma noneable_reads:
  assumes "annotation f1 = annotation f2" and "default_val f1 = default_val f2"
    and "default_factory f1 = default_factory f2" and "nullable f1 = nullable f2"
  shows "ucompat_is_field_noneable f1 = ucompat_is_field_noneable f2"
  using assms by (simp add: ucompat_is_field_noneable_def is_required_def)

lemma sqlalchemy_type_reads:
  assumes "annotation f1 = annotation f2" and "metadata f1 = metadata f2"
    and "sa_type f1 = sa_type f2"
  shows "get_sqlalchemy_type f1 = get_sqlalchemy_type f2"
proof -
  have "get_type_from_field f1 = get_type_from_field f2"
    using assms by (simp add: get_type_from_field_def)
  moreover have "get_field_metadata f1 = get_field_metadata f2"
    using assms by (simp add: get_field_metadata_def)
  ultimately show ?thesis
    using assms by (simp add: get_sqlalchemy_type_def Let_def cong: option.case_cong sum.case_cong)
qed

text \<open>Both resolution functions on the three shapes of a relationship annotation.\<close>

lemma compat_resolves_shapes:
  assumes "is_direct_target t"
  shows "compat_get_relationship_to name rel_info t = Inr (forward_arg t)"
    and "compat_get_relationship_to name rel_info (Optional t) = Inr (forward_arg t)"
    and "compat_get_relationship_to name rel_info (List_of t) = Inr (forward_arg t)"
  using assms
  by (auto simp: compat_get_relationship_to_def is_direct_target_def get_origin_def
      get_args_def first_arg_def Optional_def List_of_def split: ann.splits)

lemma ucompat_direct:
  assumes "is_direct_target t"
  shows "ucompat_get_relationship_to_fuel (Suc (Suc n)) name rel_info t = Inr (forward_arg t)"
  using assms
  by (cases t) (simp_all add: is_direct_target_def get_origin_def forward_arg_def)

lemma ucompat_optional:
  assumes "is_direct_target t"
  shows "ucompat_get_relationship_to_fuel (Suc (Suc (Suc n))) name rel_info (Optional t) =
           Inr (forward_arg t)"
proof -
  have nn: "t \<noteq> NoneType"
    using assms by (auto simp: is_direct_target_def)
  have "ucompat_get_relationship_to_fuel (Suc (Suc (Suc n))) name rel_info (Optional t) =
          ucompat_get_relationship_to_fuel (Suc (Suc n)) name rel_info t"
    using nn
    by (subst ucompat_get_relationship_to_fuel.simps(2))
       (simp add: Optional_def get_origin_def get_args_def is_union_type_def
          del: ucompat_get_relationship_to_fuel.simps)
  then show ?thesis
    by (simp only: ucompat_direct [OF assms])
qed

lemma ucompat_list:
  assumes "is_direct_target t"
  shows "ucompat_get_relationship_to_fuel (Suc (Suc (Suc n))) name rel_info (List_of t) =
           Inr (forward_arg t)"
proof -
  have "ucompat_get_relationship_to_fuel (Suc (Suc (Suc n))) name rel_info (List_of t) =
          ucompat_get_relationship_to_fuel (Suc (Suc n)) name rel_info t"
    by (subst ucompat_get_relationship_to_fuel.simps(2))
       (simp add: List_of_def get_origin_def get_args_def is_union_type_def first_arg_def
          del: ucompat_get_relationship_to_fuel.simps)
  then show ?thesis
    by (simp only: ucompat_direct [OF assms])
qed

text \<open>
  The function of \<^verbatim>\<open>_compat.py\<close> rejects a union of two or more members none of which is
  \<^verbatim>\<open>None\<close>; the one of compat.py returns a target for it.
\<close>

lemma ucompat_rejects_non_optional_union:
  assumes "non_optional_union a"
  shows "\<exists>msg. ucompat_get_relationship_to_fuel (Suc n) name rel_info a = Inl (ValueError msg)"
proof -
  from assms obtain args where a: "a = Generic O_Union args" and len: "2 \<le> length args"
    and nn: "NoneType \<notin> set args"
    by (auto simp: non_optional_union_def split: ann.splits)
  show ?thesis
  proof (cases "length args > 2")
    case True
    with a show ?thesis
      by (simp add: get_origin_def get_args_def is_union_type_def)
  next
    case False
    with len have "length args = 2" by simp
    then obtain x y where "args = [x, y]"
      by (auto simp: length_Suc_conv numeral_2_eq_2)
    with a nn show ?thesis
      by (auto simp: get_origin_def get_args_def is_union_type_def)
  qed
qed

lemma compat_accepts_non_optional_union:
  assumes "non_optional_union a"
  shows "\<exists>t. compat_get_relationship_to name rel_info a = Inr t"
proof -
  from assms obtain args where a: "a = Generic O_Union args" and len: "2 \<le> length args"
    by (auto simp: non_optional_union_def split: ann.splits)
  from len obtain x xs where "args = x # xs"
    by (cases args) auto
  with a show ?thesis
    by (simp add: compat_get_relationship_to_def get_origin_def get_args_def first_arg_def)
qed

text \<open>
  In \<^verbatim>\<open>_compat.py\<close> an origin that is neither a union nor \<^verbatim>\<open>list\<close> (\<^verbatim>\<open>Dict[str, Hero]\<close>, say)
  never yields a target, whatever the recursion limit; the three shapes resolve well
  within it.
\<close>

lemma ucompat_other_origin_never_returns:
  assumes "\<not> is_union_type orig" and "orig \<noteq> O_list"
  shows "ucompat_get_relationship_to_fuel n name rel_info (Generic orig args) = Inl RecursionError"
  using assms
  by (induction n) (simp_all add: get_origin_def)

lemma ucompat_at_recursion_limit:
  assumes "is_direct_target t"
  shows "ucompat_get_relationship_to name rel_info t = Inr (forward_arg t)"
    and "ucompat_get_relationship_to name rel_info (Optional t) = Inr (forward_arg t)"
    and "ucompat_get_relationship_to name rel_info (List_of t) = Inr (forward_arg t)"
proof -
  have lim: "recursion_limit = Suc (Suc (Suc 997))"
    by (simp add: recursion_limit_def)
  show "ucompat_get_relationship_to name rel_info t = Inr (forward_arg t)"
    unfolding ucompat_get_relationship_to_def lim by (rule ucompat_direct [OF assms])
  show "ucompat_get_relationship_to name rel_info (Optional t) = Inr (forward_arg t)"
    unfolding ucompat_get_relationship_to_def lim by (rule ucompat_optional [OF assms])
  show "ucompat_get_relationship_to name rel_info (List_of t) = Inr (forward_arg t)"
    unfolding ucompat_get_relationship_to_def lim by (rule ucompat_list [OF assms])
qed

text \<open>What the wiring loop leaves on the class.\<close>

lemma wire_relationship_override:
  "sa_relationship info = Some r \<Longrightarrow>
     wire_relationship cls (name, info) =
       Inr (cls\<lparr>mc_attrs := AList.update name (RelationshipProperty r) (mc_attrs cls)\<rparr>)"
  by (simp add: wire_relationship_def)

lemma wire_relationship_binds:
  assumes "wire_relationship cls item = Inr cls'"
  shows "\<exists>v. map_of (mc_attrs cls') = (map_of (mc_attrs cls))(fst item \<mapsto> v)
           \<and> (\<forall>r. sa_relationship (snd item) = Some r \<longrightarrow> v = RelationshipProperty r)
           \<and> sqlmodel_relationships cls' = sqlmodel_relationships cls
           \<and> model_config cls' = model_config cls"
  using assms
  by (auto simp: wire_relationship_def Let_def update_conv'
      split: option.splits sum.splits if_splits prod.splits)

lemma wire_relationships_binds:
  assumes "wire_relationships cls rels = Inr cls'"
    and "distinct (map fst rels)"
    and "(name, info) \<in> set rels"
  shows "\<exists>v. map_of (mc_attrs cls') name = Some v
           \<and> (\<forall>r. sa_relationship info = Some r \<longrightarrow> v = RelationshipProperty r)"
  using assms
proof (induction rels arbitrary: cls)
  case Nil
  then show ?case by simp
next
  case (Cons item rels)
  from Cons.prems(1) obtain cls1 where w1: "wire_relationship cls item = Inr cls1"
    and wr: "wire_relationships cls1 rels = Inr cls'"
    by (auto split: sum.splits)
  show ?case
  proof (cases "(name, info) \<in> set rels")
    case True
    with Cons.IH [OF wr] Cons.prems(2) show ?thesis by simp
  next
    case False
    with Cons.prems(3) have item: "item = (name, info)" by simp
    from Cons.prems(2) item have notin: "name \<notin> fst ` set rels" by auto
    have keep: "wire_relationships c rels = Inr c' \<Longrightarrow> name \<notin> fst ` set rels
        \<Longrightarrow> map_of (mc_attrs c') name = map_of (mc_attrs c) name" for c c'
    proof (induction rels arbitrary: c)
      case Nil
      then show ?case by simp
    next
      case (Cons it rs)
      from Cons.prems(1) obtain c1 where a: "wire_relationship c it = Inr c1"
        and b: "wire_relationships c1 rs = Inr c'"
        by (auto split: sum.splits)
      from wire_relationship_binds [OF a] Cons.prems(2)
      have "map_of (mc_attrs c1) name = map_of (mc_attrs c) name" by auto
      with Cons.IH [OF b] Cons.prems(2) show ?case by simp
    qed
    from wire_relationship_binds [OF w1] item
    obtain v where v: "map_of (mc_attrs cls1) name = Some v"
      and vr: "\<forall>r. sa_relationship info = Some r \<longrightarrow> v = RelationshipProperty r"
      by auto
    from keep [OF wr notin] v vr show ?thesis by simp
  qed
qed

lemma wire_relationships_all_overrides:
  assumes "\<forall>item \<in> set rels. sa_relationship (snd item) \<noteq> None"
  shows "\<exists>cls'. wire_relationships cls rels = Inr cls'"
  using assms
proof (induction rels arbitrary: cls)
  case Nil
  then show ?case by simp
next
  case (Cons item rels)
  then obtain r where "sa_relationship (snd item) = Some r" by auto
  then have "wire_relationship cls item =
      Inr (cls\<lparr>mc_attrs := AList.update (fst item) (RelationshipProperty r) (mc_attrs cls)\<rparr>)"
    using wire_relationship_override [of "snd item" r cls "fst item"] by simp
  with Cons show ?case by simp
qed

text \<open>The checks of the field builder.\<close>

lemma conflict_iff:
  "sa_column_conflict a k p n f u i t \<noteq> None \<longleftrightarrow>
     (a \<noteq> None \<or> k \<noteq> None \<or> p \<noteq> None \<or> n \<noteq> None \<or> f \<noteq> None \<or> u \<noteq> None \<or> i \<noteq> None \<or> t \<noteq> None)"
  by (simp add: sa_column_conflict_def)

lemma conflict_is_runtime_error:
  "sa_column_conflict a k p n f u i t = Some e \<Longrightarrow> \<exists>msg. e = RuntimeError msg"
  by (auto simp: sa_column_conflict_def split: if_splits)

lemma Field_conflict:
  assumes "sa_column params \<noteq> None" and "supplies_hint params"
  shows "\<exists>msg. Field_decl super_init params = Inl (RuntimeError msg)"
proof -
  let ?c = "sa_column_conflict (sa_column_args params) (sa_column_kwargs params)
      (primary_key params) (nullable params) (foreign_key params) (unique params)
      (index params) (sa_type params)"
  from assms(2) have "?c \<noteq> None"
    unfolding conflict_iff supplies_hint_def by blast
  then obtain e where e: "?c = Some e" by blast
  then obtain msg where "e = RuntimeError msg"
    using conflict_is_runtime_error by blast
  with e assms(1) show ?thesis
    by (simp add: Field_decl_def FieldInfo_init_def pop_def)
qed

lemma Field_no_conflict:
  assumes "\<not> (sa_column params \<noteq> None \<and> supplies_hint params)"
  shows "Field_decl super_init params =
     (case super_init (default_val params) (default_factory params) of
        Some e \<Rightarrow> Inl e
      | None \<Rightarrow> Inr (params\<lparr>annotation := NoneValue, original_default := None,
            field_title := None, field_description := None, field_alias := None\<rparr>))"
proof -
  let ?c = "sa_column_conflict (sa_column_args params) (sa_column_kwargs params)
      (primary_key params) (nullable params) (foreign_key params) (unique params)
      (index params) (sa_type params)"
  have "sa_column params \<noteq> None \<Longrightarrow> ?c = None"
    using assms conflict_iff [of "sa_column_args params" "sa_column_kwargs params"
      "primary_key params" "nullable params" "foreign_key params" "unique params"
      "index params" "sa_type params"]
    unfolding supplies_hint_def by blast
  then show ?thesis
    by (cases "sa_column params") (simp_all add: Field_decl_def FieldInfo_init_def pop_def split: option.splits)
qed

lemma class_body_fails:
  assumes "(k, params) \<in> set decls" and "\<exists>e. Field_decl super_init params = Inl e"
  shows "\<exists>e. class_body super_init decls = Inl e"
  using assms
  by (induction decls) (auto split: sum.splits)

text \<open>
  Called directly, without the keywords that \<^verbatim>\<open>Field\<close> always passes, the constructor
  pops \<^verbatim>\<open>False\<close> for \<^verbatim>\<open>primary_key\<close> and refuses a manual column on that ground.
\<close>

lemma FieldInfo_init_without_hints:
  "kw_sa_column kw = Some (Some c) \<Longrightarrow> kw_primary_key kw = None
     \<Longrightarrow> kw_sa_column_args kw = None \<Longrightarrow> kw_sa_column_kwargs kw = None
     \<Longrightarrow> FieldInfo_init super_init kw =
          Inl (RuntimeError ''Passing primary_key is not supported when also passing a sa_column'')"
  by (auto simp: FieldInfo_init_def pop_def sa_column_conflict_def Let_def)

text \<open>Construction from keyword arguments, in both branches.\<close>

lemma setattr_never_fails:
  assumes "\<And>k v. \<exists>v'. assign k v = Inr v'"
  shows "fst (SQLModel_setattr assign self name v) = None"
proof -
  obtain v' where "assign name v = Inr v'" using assms by blast
  then show ?thesis
    by (simp add: SQLModel_setattr_def BaseModel_setattr_def Let_def)
qed

lemma setattr_keeps_class_facts:
  "inst_table (snd (SQLModel_setattr assign self name v)) = inst_table self
   \<and> inst_relationships (snd (SQLModel_setattr assign self name v)) = inst_relationships self"
  by (simp add: SQLModel_setattr_def BaseModel_setattr_def set_attribute_def Let_def
      split: sum.splits)

lemma setattr_all_never_fails:
  assumes "\<And>k v. \<exists>v'. assign k v = Inr v'"
  shows "fst (setattr_all assign self kvs) = None"
proof (induction kvs arbitrary: self)
  case Nil
  then show ?case by simp
next
  case (Cons kv kvs)
  obtain k v where kv: "kv = (k, v)" by (cases kv)
  obtain e s where r: "SQLModel_setattr assign self k v = (e, s)"
    by (cases "SQLModel_setattr assign self k v")
  with setattr_never_fails [of assign self k v, OF assms] have "e = None" by simp
  with kv r Cons.IH [of s] show ?case by simp
qed

lemma init_v1_table_swallows:
  assumes "inst_table self" and "\<And>k v. \<exists>v'. assign k v = Inr v'"
  shows "fst (SQLModel_init False validate assign self data) = None"
proof -
  obtain vals fs verr where v: "validate data = (vals, fs, verr)"
    by (cases "validate data")
  obtain e s where r: "setattr_all assign self vals = (e, s)"
    by (cases "setattr_all assign self vals")
  with setattr_all_never_fails [of assign self vals, OF assms(2)] have e: "e = None" by simp
  show ?thesis
    using assms(1) v r e setattr_all_never_fails [of assign, OF assms(2)]
    by (simp add: SQLModel_init_def SQLModel_init_v1_def set_relationships_def)
qed

lemma init_not_table_raises:
  assumes "\<not> inst_table self" and "validate data = (vals, fs, Some e)"
  shows "SQLModel_init v2 validate assign self data = (Some e, self)"
  using assms
  by (simp add: SQLModel_init_def SQLModel_init_v1_def SQLModel_init_v2_def)

lemma init_v2_raises:
  assumes "validate data = (vals, fs, Some e)"
  shows "SQLModel_init True validate assign self data = (Some e, self)"
  using assms
  by (simp add: SQLModel_init_def SQLModel_init_v2_def)

lemma hero_validate_bad:
  "hero_validate [(''name'', PyNone), (''age'', Val ''abc'')] =
     ([], [], Some (ValidationError [(''name'', ''str type expected''),
                                    (''age'', ''value is not a valid integer'')]))"
  by (simp add: hero_validate_def check_field_def is_str_literal_def is_int_literal_def)

text \<open>The placeholder defaults, entry by entry.\<close>

lemma map_of_set_empty_default:
  "map_of (set_empty_default key d) = (map_of d)(key := placeholder_entry (map_of d key))"
  by (auto simp: set_empty_default_def placeholder_entry_def update_conv' fun_upd_idem_iff
      split: option.splits cdval.splits pyval.splits)

lemma placeholder_entry_idem:
  "placeholder_entry (placeholder_entry e) = placeholder_entry e"
  by (auto simp: placeholder_entry_def needs_placeholder_def with_original_default_def
      split: option.splits cdval.splits pyval.splits)

lemma map_of_set_empty_defaults_keys:
  "map_of (foldl (\<lambda>d key. set_empty_default key d) d keys) k =
     (if k \<in> set keys then placeholder_entry (map_of d k) else map_of d k)"
proof (induction keys arbitrary: d)
  case Nil
  then show ?case by simp
next
  case (Cons key keys)
  show ?case
    by (simp add: Cons.IH map_of_set_empty_default placeholder_entry_idem)
qed

lemma map_of_set_empty_defaults:
  "map_of (set_empty_defaults annotations d) k =
     (if k \<in> fst ` set annotations then placeholder_entry (map_of d k) else map_of d k)"
  by (simp add: set_empty_defaults_def map_of_set_empty_defaults_keys)

lemma sentinel_keeps_noneable:
  assumes "needs_placeholder v" and "original_default v = None"
  shows "compat_is_field_noneable (with_original_default v) = compat_is_field_noneable v"
  using assms
  by (auto simp: compat_is_field_noneable_def with_original_default_def needs_placeholder_def
      is_required_def Let_def split: option.splits)


lemma ucompat_ignores_sentinel:
  "ucompat_is_field_noneable (v\<lparr>original_default := x\<rparr>) = ucompat_is_field_noneable v"
  by (simp add: ucompat_is_field_noneable_def is_required_def)

text \<open>
  The storage type of a field descriptor without an explicit storage type: a plain class
  is taken as it is and \<^verbatim>\<open>Optional[T]\<close> is unwrapped to \<^verbatim>\<open>T\<close>; a union of more than two
  members, or of two members neither of which is \<^verbatim>\<open>None\<close>, is rejected; and when the
  unwrapped type is a class, the storage type is that of the first matching row of the
  priority table, with the string row as the code has it; when no row matches, the
  error names the type.
\<close>

lemma storage_type_priority:
  assumes "sa_type field = None"
  shows "(\<forall>c. annotation field = Class c \<longrightarrow> get_type_from_field field = Inr (Class c))
    \<and> (\<forall>orig t. is_union_type orig \<and> t \<noteq> NoneType
           \<and> (annotation field = Generic orig [t, NoneType]
                \<or> annotation field = Generic orig [NoneType, t])
         \<longrightarrow> get_type_from_field field = Inr t)
    \<and> (\<forall>orig args. annotation field = Generic orig args \<and> is_union_type orig
           \<and> (length args > 2 \<or> (length args = 2 \<and> NoneType \<notin> set args))
         \<longrightarrow> (\<exists>msg. get_sqlalchemy_type field = Inl (ValueError msg)))
    \<and> (\<forall>t c. get_type_from_field field = Inr t \<and> as_class t = Some c
         \<longrightarrow> get_sqlalchemy_type field =
               storage_type_by (priority_with nonzero_string_rule) t c
                 (get_field_metadata field))"
proof (intro conjI allI impI)
  fix c assume "annotation field = Class c"
  then show "get_type_from_field field = Inr (Class c)"
    by (simp add: get_type_from_field_def get_origin_def)
next
  fix orig t
  assume "is_union_type orig \<and> t \<noteq> NoneType
           \<and> (annotation field = Generic orig [t, NoneType]
                \<or> annotation field = Generic orig [NoneType, t])"
  then show "get_type_from_field field = Inr t"
    by (auto simp: get_type_from_field_def get_origin_def get_args_def)
next
  fix orig args
  assume h: "annotation field = Generic orig args \<and> is_union_type orig
           \<and> (length args > 2 \<or> (length args = 2 \<and> NoneType \<notin> set args))"
  then consider "length args > 2"
    | a b where "args = [a, b]" "a \<noteq> NoneType" "b \<noteq> NoneType"
    by (cases args rule: list.exhaust; cases "tl args"; cases "tl (tl args)"; auto)
  then have "\<exists>msg. get_type_from_field field = Inl (ValueError msg)"
  proof cases
    case 1
    with h show ?thesis
      by (simp add: get_type_from_field_def get_origin_def get_args_def)
  next
    case 2
    with h show ?thesis
      by (simp add: get_type_from_field_def get_origin_def get_args_def)
  qed
  with assms show "\<exists>msg. get_sqlalchemy_type field = Inl (ValueError msg)"
    by (auto simp: get_sqlalchemy_type_def)
next
  fix t c
  assume "get_type_from_field field = Inr t \<and> as_class t = Some c"
  with assms show "get_sqlalchemy_type field =
               storage_type_by (priority_with nonzero_string_rule) t c
                 (get_field_metadata field)"
    by (simp add: get_sqlalchemy_type_def dispatch_is_first_match)
qed


text \<open>
  The scenario of the specification: a decimal field with \<^verbatim>\<open>max_digits=5\<close> and
  \<^verbatim>\<open>decimal_places=2\<close> derives precision 5 and scale 2.
\<close>

lemma decimal_scenario:
  "sa_type decimal_field = None
   \<and> get_type_from_field decimal_field = Inr (Class py_Decimal)
   \<and> as_class (Class py_Decimal) = Some py_Decimal
   \<and> get_sqlalchemy_type decimal_field = Inr (Numeric (Some 5) (Some 2))"
proof -
  have h: "sa_type decimal_field = None"
    by (simp add: decimal_field_def bare_field_def)
  have a: "annotation decimal_field = Class py_Decimal"
    by (simp add: decimal_field_def bare_field_def)
  have c: "as_class (Class py_Decimal) = Some py_Decimal"
    by (simp add: as_class_def)
  have md: "get_field_metadata decimal_field =
      \<lparr>max_length = None, max_digits = Some 5, decimal_places = Some 2\<rparr>"
    by (simp add: get_field_metadata_def decimal_field_def bare_field_def)
  have ev: "storage_type_by (priority_with nonzero_string_rule) (Class py_Decimal) py_Decimal
      \<lparr>max_length = None, max_digits = Some 5, decimal_places = Some 2\<rparr> =
        Inr (Numeric (Some 5) (Some 2))"
    by (simp add: storage_type_by_def priority_with_def issubclass_def py_Decimal_def)
  from storage_type_priority [OF h] a c md ev h show ?thesis
    by simp
qed


text \<open>An origin that is no class, such as \<^verbatim>\<open>Literal\<close>, ends in the \<^verbatim>\<open>TypeError\<close> of \<^verbatim>\<open>issubclass\<close>.\<close>

lemma literal_is_no_class:
  "get_sqlalchemy_type (bare_field (Generic (O_special ''Literal'') [Str ''a''])) =
     Inl (TypeError ''issubclass() arg 1 must be a class'')"
  by (simp add: get_sqlalchemy_type_def get_type_from_field_def bare_field_def get_origin_def
      is_union_type_def origin_object_def as_class_def get_field_metadata_def)

text \<open>
  After \<^verbatim>\<open>set_empty_defaults\<close> an annotated name has a default unless the class body binds
  it to \<^verbatim>\<open>...\<close>; a descriptor that needed the placeholder keeps its former default in
  \<^verbatim>\<open>original_default\<close>, with which \<^verbatim>\<open>is_field_noneable\<close> of compat.py answers as before.
\<close>

lemma placeholder_entry_has_default:
  "e \<noteq> Some (CD_Value Ellipsis) \<Longrightarrow> entry_has_default (placeholder_entry e)"
  by (auto simp: placeholder_entry_def entry_has_default_def needs_placeholder_def
      with_original_default_def split: option.splits cdval.splits pyval.splits)

lemma placeholders_injected:
  assumes "k \<in> fst ` set annotations"
  shows "(map_of d k \<noteq> Some (CD_Value Ellipsis) \<longrightarrow>
            entry_has_default (map_of (set_empty_defaults annotations d) k))
    \<and> (map_of d k = None \<longrightarrow>
          map_of (set_empty_defaults annotations d) k = Some CD_None)
    \<and> (\<forall>v. map_of d k = Some (CD_Field v) \<and> needs_placeholder v \<longrightarrow>
          map_of (set_empty_defaults annotations d) k =
            Some (CD_Field (v\<lparr>original_default := Some (default_val v), default_val := PyNone\<rparr>))
          \<and> (original_default v = None \<longrightarrow>
                compat_is_field_noneable
                  (v\<lparr>original_default := Some (default_val v), default_val := PyNone\<rparr>) =
                compat_is_field_noneable v))
    \<and> (entry_has_default (map_of d k) \<or> map_of d k = Some (CD_Value Ellipsis) \<longrightarrow>
          map_of (set_empty_defaults annotations d) k = map_of d k)"
proof -
  have m: "map_of (set_empty_defaults annotations d) k = placeholder_entry (map_of d k)"
    using assms by (simp add: map_of_set_empty_defaults)
  have 1: "map_of d k \<noteq> Some (CD_Value Ellipsis) \<longrightarrow>
      entry_has_default (map_of (set_empty_defaults annotations d) k)"
    by (simp add: m placeholder_entry_has_default)
  have 2: "map_of d k = None \<longrightarrow> map_of (set_empty_defaults annotations d) k = Some CD_None"
    by (simp add: m placeholder_entry_def)
  have 3: "\<forall>v. map_of d k = Some (CD_Field v) \<and> needs_placeholder v \<longrightarrow>
          map_of (set_empty_defaults annotations d) k =
            Some (CD_Field (v\<lparr>original_default := Some (default_val v), default_val := PyNone\<rparr>))
          \<and> (original_default v = None \<longrightarrow>
                compat_is_field_noneable
                  (v\<lparr>original_default := Some (default_val v), default_val := PyNone\<rparr>) =
                compat_is_field_noneable v)"
    using sentinel_keeps_noneable
    by (auto simp: m placeholder_entry_def with_original_default_def)
  have 4: "entry_has_default (map_of d k) \<or> map_of d k = Some (CD_Value Ellipsis) \<longrightarrow>
          map_of (set_empty_defaults annotations d) k = map_of d k"
    by (auto simp: m placeholder_entry_def entry_has_default_def
        split: option.splits cdval.splits pyval.splits)
  from 1 2 3 4 show ?thesis by blast
qed

text \<open>
  In \<^verbatim>\<open>SQLModelMetaclass.__new__\<close> the placeholders reach the annotations handed to the
  validation library when the class is a table class.
\<close>

lemma table_class_dict_has_defaults:
  assumes "class_dict_is_table class_dict kwargs"
    and "split_class_dict class_dict original_annotations kwargs = (dict_used, anns, rels)"
    and "k \<in> fst ` set anns"
    and "map_of class_dict k \<noteq> Some (CD_Value Ellipsis)"
    and "k \<noteq> ''__weakref__''"
    and "distinct (map fst class_dict)"
  shows "entry_has_default (map_of dict_used k)"
proof -
  let ?d = "AList.update ''__weakref__'' CD_None
      (filter (\<lambda>kv. \<not> is_relationship_entry kv) class_dict)"
  from assms(1,2) have du: "dict_used = set_empty_defaults anns ?d"
    by (auto simp: split_class_dict_def Let_def)
  have "map_of (filter (\<lambda>kv. \<not> is_relationship_entry kv) cd) k \<noteq> Some (CD_Value Ellipsis)"
    if "map_of cd k \<noteq> Some (CD_Value Ellipsis)" and "distinct (map fst cd)" for cd
    using that
  proof (induction cd)
    case Nil
    then show ?case by simp
  next
    case (Cons kv cd)
    show ?case
    proof (cases "fst kv = k")
      case True
      with Cons.prems(2) have "k \<notin> fst ` set cd" by auto
      then have "map_of (filter (\<lambda>kv. \<not> is_relationship_entry kv) cd) k = None"
        by (auto simp: map_of_eq_None_iff)
      with True Cons.prems(1) show ?thesis
        by (cases kv) auto
    next
      case False
      with Cons show ?thesis by (cases kv) auto
    qed
  qed
  with assms(4,5,6) have "map_of ?d k \<noteq> Some (CD_Value Ellipsis)"
    by (simp add: update_conv')
  with assms(3) du show ?thesis
    by (simp add: map_of_set_empty_defaults placeholder_entry_has_default)
qed

text \<open>
  With no \<^verbatim>\<open>...\<close> in the class body, no field annotated there is left required, and
  construction without arguments has nothing to report.
\<close>

lemma zero_arguments_without_ellipsis:
  assumes "\<forall>k \<in> fst ` set annotations. map_of d k \<noteq> Some (CD_Value Ellipsis)"
  shows "fst (SQLModel_init True
                (required_validator annotations (set_empty_defaults annotations d))
                assign self []) = None"
proof -
  have "filter (\<lambda>k. \<not> entry_has_default (map_of (set_empty_defaults annotations d) k))
      (map fst annotations) = []"
    using assms
    by (auto simp: filter_empty_conv map_of_set_empty_defaults placeholder_entry_has_default)
  then have "required_validator annotations (set_empty_defaults annotations d) [] =
      ([], [], None)"
    by (simp add: required_validator_def)
  then show ?thesis
    by (simp add: SQLModel_init_def SQLModel_init_v2_def set_relationships_def)
qed

text \<open>
  A bare annotation gets a plain \<^verbatim>\<open>None\<close> and no sentinel: the dictionary is that of a
  field declared with the default \<^verbatim>\<open>None\<close>.
\<close>

lemma bare_annotation_has_no_sentinel:
  "set_empty_defaults [(''name'', Class py_str)] [] = [(''name'', CD_None)]
   \<and> set_empty_defaults [(''name'', Class py_str)] [(''name'', CD_None)] = [(''name'', CD_None)]"
  by (simp add: set_empty_defaults_def set_empty_default_def)

section \<open>The claims\<close>

text \<open>
  C1, as amended. For a field descriptor with no manual column, whose storage type can be
  derived and whose extra column keywords do not name \<^verbatim>\<open>nullable\<close>, the derived column's
  \<^verbatim>\<open>nullable\<close> is: the explicit override when there is one; otherwise false for a primary
  key; otherwise true exactly when the annotation is a union with \<^verbatim>\<open>None\<close> among its
  members, or the annotation is \<^verbatim>\<open>None\<close> itself and the field has a static default. A
  default of \<^verbatim>\<open>None\<close> on a field of another type does not make the column nullable.
\<close>

theorem derived_column_nullability:
  assumes "sa_column field = None"
    and "get_sqlalchemy_type field = Inr t"
    and "case sa_column_kwargs field of
           None \<Rightarrow> True
         | Some extra \<Rightarrow> ''nullable'' \<notin> fst ` set extra"
  shows "\<exists>c. get_column_from_field field = Inr c
           \<and> column_kwarg c ''nullable'' =
               Some (KBool
                 (case nullable field of
                    Some b \<Rightarrow> b
                  | None \<Rightarrow>
                      primary_key field \<noteq> Some True
                      \<and> (is_optional_annotation (annotation field)
                           \<or> none_typed_with_default field)))"
  using assms
  by (auto simp: get_column_from_field_def column_kwarg_def Let_def derived_nullable_cases
      map_of_dict_update_other update_conv' split: option.splits)

text \<open>
  The scenario of the specification: a foreign key \<^verbatim>\<open>team.id\<close> on \<^verbatim>\<open>Optional[int] = None\<close>
  derives a nullable column.
\<close>

theorem derived_column_nullability_witness:
  "sa_column ((bare_field (Optional (Class py_int)))
       \<lparr>default_val := PyNone, foreign_key := Some ''team.id''\<rparr>) = None
   \<and> get_sqlalchemy_type ((bare_field (Optional (Class py_int)))
       \<lparr>default_val := PyNone, foreign_key := Some ''team.id''\<rparr>) = Inr Integer
   \<and> (\<exists>c. get_column_from_field ((bare_field (Optional (Class py_int)))
            \<lparr>default_val := PyNone, foreign_key := Some ''team.id''\<rparr>) = Inr c
          \<and> column_kwarg c ''nullable'' = Some (KBool True))"
proof -
  let ?f = "(bare_field (Optional (Class py_int)))
       \<lparr>default_val := PyNone, foreign_key := Some ''team.id''\<rparr>"
  have h1: "sa_column ?f = None"
    by (simp add: bare_field_def)
  have h2: "get_sqlalchemy_type ?f = Inr Integer"
    by (simp add: bare_field_def Optional_def py_int_def get_sqlalchemy_type_def
        get_type_from_field_def get_origin_def get_args_def is_union_type_def
        get_field_metadata_def FakeMetadata_def as_class_def dispatch_type_def issubclass_def)
  have h3: "case sa_column_kwargs ?f of
              None \<Rightarrow> True
            | Some extra \<Rightarrow> ''nullable'' \<notin> fst ` set extra"
    by (simp add: bare_field_def)
  have opt: "is_optional_annotation (annotation ?f)"
    by (simp add: bare_field_def Optional_def is_optional_annotation_def get_origin_def
        get_args_def is_union_type_def)
  have nul: "nullable ?f = None" and pk: "primary_key ?f = None"
    by (simp_all add: bare_field_def)
  from derived_column_nullability [OF h1 h2 h3] opt nul pk h1 h2
  show ?thesis by simp
qed

text \<open>
  C1 as stated fails: \<^verbatim>\<open>age: int = None\<close> carries a default of \<^verbatim>\<open>None\<close>, so the stated rule
  makes the column nullable, while the code derives \<^verbatim>\<open>nullable=False\<close>.
\<close>

theorem none_default_not_nullable_counterexample:
  "spec_nullable ((bare_field (Class py_int))\<lparr>default_val := PyNone\<rparr>) = True
   \<and> derived_nullable ((bare_field (Class py_int))\<lparr>default_val := PyNone\<rparr>) = False
   \<and> get_column_from_field ((bare_field (Class py_int))\<lparr>default_val := PyNone\<rparr>) =
       Inr \<lparr>col_type = Integer, col_args = [],
            col_kwargs = [(''primary_key'', KBool False), (''nullable'', KBool False),
                          (''index'', KBool False), (''unique'', KBool False),
                          (''default'', KValue PyNone)]\<rparr>"
  by (simp add: spec_nullable_def spec_none_compatible_default_def derived_nullable_def
      ucompat_is_field_noneable_def is_optional_annotation_def is_required_def
      get_column_from_field_def get_sqlalchemy_type_def get_type_from_field_def
      get_origin_def get_field_metadata_def FakeMetadata_def as_class_def dispatch_type_def
      issubclass_def bare_field_def py_int_def Let_def)

text \<open>
  C9. Two field descriptors that agree on the attributes the derivation reads (identical
  descriptors do) derive the same result: the same column, so the same storage type, the
  same nullability and the same constraints and default, or the same error. Attributes
  that are documentation only play no part.
\<close>

theorem column_derivation_deterministic:
  assumes "annotation f1 = annotation f2" and "default_val f1 = default_val f2"
    and "default_factory f1 = default_factory f2" and "metadata f1 = metadata f2"
    and "primary_key f1 = primary_key f2" and "nullable f1 = nullable f2"
    and "foreign_key f1 = foreign_key f2" and "unique f1 = unique f2"
    and "index f1 = index f2" and "sa_type f1 = sa_type f2"
    and "sa_column f1 = sa_column f2" and "sa_column_args f1 = sa_column_args f2"
    and "sa_column_kwargs f1 = sa_column_kwargs f2"
  shows "get_column_from_field f1 = get_column_from_field f2"
proof -
  have ty: "get_sqlalchemy_type f1 = get_sqlalchemy_type f2"
    using assms by (intro sqlalchemy_type_reads) simp_all
  have nn: "ucompat_is_field_noneable f1 = ucompat_is_field_noneable f2"
    using assms by (intro noneable_reads) simp_all
  have dn: "derived_nullable f1 = derived_nullable f2"
    using assms nn by (simp add: derived_nullable_def)
  show ?thesis
    unfolding get_column_from_field_def using assms ty dn
    by (simp add: Let_def cong: option.case_cong sum.case_cong if_cong)
qed

theorem column_derivation_deterministic_witness:
  "get_column_from_field ((bare_field (Class py_int))\<lparr>primary_key := Some True\<rparr>) =
   get_column_from_field ((bare_field (Class py_int))
      \<lparr>primary_key := Some True, field_title := Some ''Identifier''\<rparr>)
   \<and> get_column_from_field ((bare_field (Class py_int))\<lparr>primary_key := Some True\<rparr>) =
       Inr \<lparr>col_type = Integer, col_args = [],
            col_kwargs = [(''primary_key'', KBool True), (''nullable'', KBool False),
                          (''index'', KBool False), (''unique'', KBool False)]\<rparr>"
proof -
  let ?f1 = "(bare_field (Class py_int))\<lparr>primary_key := Some True\<rparr>"
  let ?f2 = "(bare_field (Class py_int))
      \<lparr>primary_key := Some True, field_title := Some ''Identifier''\<rparr>"
  have same: "get_column_from_field ?f1 = get_column_from_field ?f2"
    by (rule column_derivation_deterministic) (simp_all add: bare_field_def)
  have val: "get_column_from_field ?f1 =
       Inr \<lparr>col_type = Integer, col_args = [],
            col_kwargs = [(''primary_key'', KBool True), (''nullable'', KBool False),
                          (''index'', KBool False), (''unique'', KBool False)]\<rparr>"
    by (simp add: derived_nullable_def
        get_column_from_field_def get_sqlalchemy_type_def get_type_from_field_def
        get_origin_def get_field_metadata_def FakeMetadata_def as_class_def dispatch_type_def
        issubclass_def bare_field_def py_int_def Let_def)
  from same val show ?thesis by simp
qed

text \<open>
  C2. The three shapes \<^verbatim>\<open>Target\<close>, \<^verbatim>\<open>Optional[Target]\<close> and \<^verbatim>\<open>List[Target]\<close> resolve to the
  target (lemmas \<open>compat_resolves_shapes\<close>, \<open>ucompat_optional\<close>, \<open>ucompat_list\<close>), but
  the resolution function that main.py imports does not reject a union of two concrete
  types: for \<^verbatim>\<open>Union[Team, Hero]\<close> it returns \<^verbatim>\<open>Team\<close>, where the claim, and the function of
  the same name in \<^verbatim>\<open>_compat.py\<close>, raise.
\<close>

theorem union_target_not_rejected:
  "non_optional_union (Generic O_Union [Class Team, Class Hero])
   \<and> compat_get_relationship_to ''team'' no_relationship_options
        (Generic O_Union [Class Team, Class Hero]) = Inr (Class Team)"
  by (simp add: compat_get_relationship_to_def get_origin_def get_args_def first_arg_def
      forward_arg_def non_optional_union_def)

text \<open>
  C8. \<^verbatim>\<open>SQLModelMetaclass.__init__\<close> wires relationships exactly when the class is a table
  class and none of the base classes of its class statement is one. Otherwise it leaves
  the class as it is and ends with the validation library's initialiser, so a class
  derived from a table class is never wired again. When it wires, and the loop runs to
  its end, every relationship name is bound on the class, and a relationship with an
  explicit \<^verbatim>\<open>sa_relationship\<close> is bound to that very object; the step for such a
  relationship reads neither the annotation nor any other option, so it cannot fail.
\<close>

theorem relationship_wiring_gate:
  "(\<not> (cls_is_table cls \<and> (\<forall>b \<in> set bases. \<not> cls_is_table b)) \<longrightarrow>
       SQLModelMetaclass_init cls bases = Inr (cls\<lparr>initialised_by := Some ModelMetaclass_init\<rparr>))
   \<and> (cls_is_table cls \<and> (\<forall>b \<in> set bases. \<not> cls_is_table b)
        \<and> distinct (map fst (sqlmodel_relationships cls))
        \<and> SQLModelMetaclass_init cls bases = Inr cls' \<longrightarrow>
          initialised_by cls' = Some DeclarativeMeta_init
          \<and> (\<forall>name info. (name, info) \<in> set (sqlmodel_relationships cls) \<longrightarrow>
                (\<exists>v. map_of (mc_attrs cls') name = Some v
                   \<and> (\<forall>r. sa_relationship info = Some r \<longrightarrow> v = RelationshipProperty r))))
   \<and> (\<forall>name info r. sa_relationship info = Some r \<longrightarrow>
          wire_relationship cls (name, info) =
            Inr (cls\<lparr>mc_attrs := AList.update name (RelationshipProperty r) (mc_attrs cls)\<rparr>))"
proof (intro conjI impI allI)
  assume "\<not> (cls_is_table cls \<and> (\<forall>b \<in> set bases. \<not> cls_is_table b))"
  then show "SQLModelMetaclass_init cls bases = Inr (cls\<lparr>initialised_by := Some ModelMetaclass_init\<rparr>)"
    by (auto simp: SQLModelMetaclass_init_def Let_def list_ex_iff)
next
  assume h: "cls_is_table cls \<and> (\<forall>b \<in> set bases. \<not> cls_is_table b)
        \<and> distinct (map fst (sqlmodel_relationships cls))
        \<and> SQLModelMetaclass_init cls bases = Inr cls'"
  then obtain c1 where w: "wire_relationships cls (sqlmodel_relationships cls) = Inr c1"
    and c': "cls' = c1\<lparr>initialised_by := Some DeclarativeMeta_init\<rparr>"
    by (auto simp: SQLModelMetaclass_init_def Let_def list_ex_iff split: sum.splits)
  show "initialised_by cls' = Some DeclarativeMeta_init"
    using c' by simp
  fix name info
  assume "(name, info) \<in> set (sqlmodel_relationships cls)"
  with wire_relationships_binds [OF w] h c'
  show "\<exists>v. map_of (mc_attrs cls') name = Some v
                   \<and> (\<forall>r. sa_relationship info = Some r \<longrightarrow> v = RelationshipProperty r)"
    by simp
next
  fix name and info :: RelationshipInfo and r
  assume "sa_relationship info = Some r"
  then show "wire_relationship cls (name, info) =
            Inr (cls\<lparr>mc_attrs := AList.update name (RelationshipProperty r) (mc_attrs cls)\<rparr>)"
    by (rule wire_relationship_override)
qed


theorem relationship_wiring_gate_witness:
  "cls_is_table team_class
   \<and> SQLModelMetaclass_init team_class [] =
       Inr (team_class\<lparr>mc_attrs := [(''heroes'', RelationshipProperty ''heroes_rel'')],
                       initialised_by := Some DeclarativeMeta_init\<rparr>)
   \<and> SQLModelMetaclass_init team_read_class [team_class] =
       Inr (team_read_class\<lparr>initialised_by := Some ModelMetaclass_init\<rparr>)"
proof -
  have tab: "cls_is_table team_class"
    by (simp add: cls_is_table_def team_class_def truthy_def)
  have gate_read: "\<not> (cls_is_table team_read_class
      \<and> (\<forall>b \<in> set [team_class]. \<not> cls_is_table b))"
    using tab by simp
  have ov: "sa_relationship heroes_override = Some ''heroes_rel''"
    by (simp add: heroes_override_def no_relationship_options_def)
  have step: "wire_relationship team_class (''heroes'', heroes_override) =
      Inr (team_class\<lparr>mc_attrs := AList.update ''heroes'' (RelationshipProperty ''heroes_rel'')
             (mc_attrs team_class)\<rparr>)"
    using relationship_wiring_gate [of team_class "[]" team_class] ov by blast
  have run: "SQLModelMetaclass_init team_class [] =
       Inr (team_class\<lparr>mc_attrs := [(''heroes'', RelationshipProperty ''heroes_rel'')],
                       initialised_by := Some DeclarativeMeta_init\<rparr>)"
    using tab step
    by (simp add: SQLModelMetaclass_init_def) (simp add: team_class_def)
  have skip: "SQLModelMetaclass_init team_read_class [team_class] =
       Inr (team_read_class\<lparr>initialised_by := Some ModelMetaclass_init\<rparr>)"
    using relationship_wiring_gate [of team_read_class "[team_class]" team_read_class] gate_read
    by blast
  from tab run skip show ?thesis by simp
qed

text \<open>
  C4. A declaration \<^verbatim>\<open>Field(...)\<close> that passes \<^verbatim>\<open>sa_column\<close> together with any of
  \<^verbatim>\<open>primary_key\<close>, \<^verbatim>\<open>nullable\<close>, \<^verbatim>\<open>foreign_key\<close>, \<^verbatim>\<open>unique\<close>, \<^verbatim>\<open>index\<close>, \<^verbatim>\<open>sa_type\<close>,
  \<^verbatim>\<open>sa_column_args\<close> or \<^verbatim>\<open>sa_column_kwargs\<close> raises \<^verbatim>\<open>RuntimeError\<close>, whatever the
  validation library's constructor would do, and a class body holding such a declaration
  ends with an error before a class dictionary exists. A declaration that passes
  \<^verbatim>\<open>sa_column\<close> alone returns a descriptor carrying that column, provided the validation
  library accepts its default.
\<close>

theorem manual_column_excludes_hints:
  "(sa_column params \<noteq> None \<and> supplies_hint params \<longrightarrow>
      (\<exists>msg. Field_decl super_init params = Inl (RuntimeError msg))
      \<and> (\<forall>k decls. (k, params) \<in> set decls \<longrightarrow>
            (\<exists>e. class_body super_init decls = Inl e)))
   \<and> (sa_column params \<noteq> None \<and> \<not> supplies_hint params
        \<and> super_init (default_val params) (default_factory params) = None \<longrightarrow>
      (\<exists>fi. Field_decl super_init params = Inr fi \<and> sa_column fi = sa_column params))"
proof (intro conjI impI allI)
  assume h: "sa_column params \<noteq> None \<and> supplies_hint params"
  then show "\<exists>msg. Field_decl super_init params = Inl (RuntimeError msg)"
    using Field_conflict by blast
  then have "\<exists>e. Field_decl super_init params = Inl e" by blast
  then show "\<exists>e. class_body super_init decls = Inl e" if "(k, params) \<in> set decls" for k decls
    using that class_body_fails by blast
next
  assume h: "sa_column params \<noteq> None \<and> \<not> supplies_hint params
        \<and> super_init (default_val params) (default_factory params) = None"
  then have "\<not> (sa_column params \<noteq> None \<and> supplies_hint params)" by simp
  from Field_no_conflict [OF this, of super_init] h
  show "\<exists>fi. Field_decl super_init params = Inr fi \<and> sa_column fi = sa_column params"
    by simp
qed

theorem manual_column_excludes_hints_witness:
  "(\<exists>msg. Field_decl pydantic_init
        ((bare_field NoneValue)\<lparr>sa_column := Some manual_column, primary_key := Some True\<rparr>) =
          Inl (RuntimeError msg))
   \<and> (\<exists>fi. Field_decl pydantic_init ((bare_field NoneValue)\<lparr>sa_column := Some manual_column\<rparr>) =
          Inr fi \<and> sa_column fi = Some manual_column)"
proof -
  let ?both = "(bare_field NoneValue)\<lparr>sa_column := Some manual_column, primary_key := Some True\<rparr>"
  let ?alone = "(bare_field NoneValue)\<lparr>sa_column := Some manual_column\<rparr>"
  have b: "sa_column ?both \<noteq> None \<and> supplies_hint ?both"
    by (simp add: bare_field_def supplies_hint_def)
  have a: "sa_column ?alone \<noteq> None \<and> \<not> supplies_hint ?alone
      \<and> pydantic_init (default_val ?alone) (default_factory ?alone) = None"
    by (simp add: bare_field_def supplies_hint_def pydantic_init_def)
  have sc: "sa_column ?alone = Some manual_column"
    by (simp add: bare_field_def)
  from manual_column_excludes_hints [of ?both pydantic_init] b
  have 1: "\<exists>msg. Field_decl pydantic_init ?both = Inl (RuntimeError msg)" by blast
  from manual_column_excludes_hints [of ?alone pydantic_init] a
  have "\<exists>fi. Field_decl pydantic_init ?alone = Inr fi \<and> sa_column fi = sa_column ?alone" by blast
  with sc have 2: "\<exists>fi. Field_decl pydantic_init ?alone = Inr fi \<and> sa_column fi = Some manual_column"
    by simp
  from 1 2 show ?thesis by blast
qed

text \<open>
  C7. On an instance of a table class: a write to \<^verbatim>\<open>_sa_instance_state\<close> goes into
  \<^verbatim>\<open>__dict__\<close> and neither layer is called; a write to a relationship attribute never
  reaches the validation layer and, the attribute being instrumented, is one write
  through the mapping layer; a write to any other instrumented attribute is one write
  through the mapping layer followed by the write through the validation layer, and
  when the validation layer refuses the value the mapping-layer write stays.
\<close>

theorem setattr_write_order:
  assumes "inst_table self"
  shows "(name = ''_sa_instance_state'' \<longrightarrow>
            SQLModel_setattr assign self name v =
              (None, self\<lparr>inst_dict := AList.update name v (inst_dict self)\<rparr>)
            \<and> trace (snd (SQLModel_setattr assign self name v)) = trace self)
    \<and> (name \<noteq> ''_sa_instance_state'' \<and> name \<in> set (inst_relationships self) \<longrightarrow>
            fst (SQLModel_setattr assign self name v) = None
            \<and> trace (snd (SQLModel_setattr assign self name v)) =
                trace self @ (if name \<in> set (instrumented self)
                              then [MappingWrite name v] else []))
    \<and> (name \<noteq> ''_sa_instance_state'' \<and> name \<notin> set (inst_relationships self)
          \<and> name \<in> set (instrumented self) \<longrightarrow>
            trace (snd (SQLModel_setattr assign self name v)) =
              trace self @ MappingWrite name v #
                (case assign name v of Inl e \<Rightarrow> [] | Inr v' \<Rightarrow> [ValidationWrite name v'])
            \<and> fst (SQLModel_setattr assign self name v) =
                (case assign name v of Inl e \<Rightarrow> Some e | Inr v' \<Rightarrow> None))"
  using assms
  by (auto simp: SQLModel_setattr_def BaseModel_setattr_def set_attribute_def Let_def
      split: sum.splits)

theorem setattr_write_order_witness:
  "inst_table (hero_instance True)
   \<and> trace (snd (SQLModel_setattr accept_assignment (hero_instance True)
        ''_sa_instance_state'' (Val ''state''))) = []
   \<and> trace (snd (SQLModel_setattr accept_assignment (hero_instance True)
        ''team'' (Val ''Preventers''))) = [MappingWrite ''team'' (Val ''Preventers'')]
   \<and> trace (snd (SQLModel_setattr accept_assignment (hero_instance True)
        ''name'' (Val ''Deadpond''))) =
       [MappingWrite ''name'' (Val ''Deadpond''), ValidationWrite ''name'' (Val ''Deadpond'')]"
proof -
  have t: "inst_table (hero_instance True)"
    by (simp add: hero_instance_def)
  have facts: "trace (hero_instance True) = []"
    "''team'' \<in> set (inst_relationships (hero_instance True))"
    "''team'' \<in> set (instrumented (hero_instance True))"
    "''name'' \<notin> set (inst_relationships (hero_instance True))"
    "''name'' \<in> set (instrumented (hero_instance True))"
    by (simp_all add: hero_instance_def)
  from setattr_write_order [OF t, of "''_sa_instance_state''" accept_assignment "Val ''state''"]
  have 1: "trace (snd (SQLModel_setattr accept_assignment (hero_instance True)
        ''_sa_instance_state'' (Val ''state''))) = []"
    using facts by simp
  from setattr_write_order [OF t, of "''team''" accept_assignment "Val ''Preventers''"]
  have 2: "trace (snd (SQLModel_setattr accept_assignment (hero_instance True)
        ''team'' (Val ''Preventers''))) = [MappingWrite ''team'' (Val ''Preventers'')]"
    using facts by simp
  from setattr_write_order [OF t, of "''name''" accept_assignment "Val ''Deadpond''"]
  have 3: "trace (snd (SQLModel_setattr accept_assignment (hero_instance True)
        ''name'' (Val ''Deadpond''))) =
       [MappingWrite ''name'' (Val ''Deadpond''), ValidationWrite ''name'' (Val ''Deadpond'')]"
    using facts by (simp add: accept_assignment_def)
  from t 1 2 3 show ?thesis by simp
qed


text \<open>
  C5. For a class that is not a table class, construction raises the single error the
  validation layer computed, with every failing field in it (lemma
  \<open>init_not_table_raises\<close>), and in the v1 branch a table class raises nothing (lemma
  \<open>init_v1_table_swallows\<close>). In the v2 branch the constructor of the validation library
  is called without looking at the table flag: the same invalid input raises for a table
  class as well.
\<close>

theorem table_construction_raises_under_v2:
  "inst_table (hero_instance True)
   \<and> SQLModel_init True hero_validate accept_assignment (hero_instance True)
       [(''name'', PyNone), (''age'', Val ''abc'')] =
     (Some (ValidationError [(''name'', ''str type expected''),
                             (''age'', ''value is not a valid integer'')]),
      hero_instance True)"
  using init_v2_raises [of hero_validate, OF hero_validate_bad]
  by (simp add: hero_instance_def)

text \<open>
  C10. A class that does not set \<^verbatim>\<open>__tablename__\<close> gets as table name its class name put
  through \<^verbatim>\<open>str.lower\<close>, whatever the name. For an ASCII name that is the name with every
  letter A..Z replaced by a..z: nothing else changed, the length kept, no capital left,
  and a name without capitals is its own table name.
\<close>

theorem tablename_defaults_to_lowercase_name:
  assumes "explicit_tablename cls = None"
  shows "tablename str_lower cls = str_lower (cls_name cls)
     \<and> ((\<forall>s. is_ascii s \<longrightarrow> str_lower s = ascii_lower s) \<and> is_ascii (cls_name cls) \<longrightarrow>
           tablename str_lower cls = map ascii_lower_char (cls_name cls)
           \<and> length (tablename str_lower cls) = length (cls_name cls)
           \<and> list_all (\<lambda>c. \<not> is_upper c) (tablename str_lower cls)
           \<and> (list_all (\<lambda>c. \<not> is_upper c) (cls_name cls) \<longrightarrow>
                 tablename str_lower cls = cls_name cls))"
proof -
  have eq: "tablename str_lower cls = str_lower (cls_name cls)"
    using assms by (simp add: tablename_def declared_tablename_def)
  have low: "list_all (\<lambda>c. \<not> is_upper c) (map ascii_lower_char (cls_name cls))"
    by (simp add: list_all_iff ascii_lower_char_not_upper)
  have unchanged: "list_all (\<lambda>c. \<not> is_upper c) (cls_name cls)
      \<Longrightarrow> map ascii_lower_char (cls_name cls) = cls_name cls"
    by (simp add: map_idI list_all_iff ascii_lower_char_fixes_non_upper)
  show ?thesis
  proof (intro conjI impI)
    show "tablename str_lower cls = str_lower (cls_name cls)" by (rule eq)
  next
    assume h: "(\<forall>s. is_ascii s \<longrightarrow> str_lower s = ascii_lower s) \<and> is_ascii (cls_name cls)"
    then have a: "tablename str_lower cls = map ascii_lower_char (cls_name cls)"
      using eq by (simp add: ascii_lower_def)
    show "tablename str_lower cls = map ascii_lower_char (cls_name cls)" by (rule a)
    show "length (tablename str_lower cls) = length (cls_name cls)" using a by simp
    show "list_all (\<lambda>c. \<not> is_upper c) (tablename str_lower cls)" using a low by simp
    show "tablename str_lower cls = cls_name cls"
      if "list_all (\<lambda>c. \<not> is_upper c) (cls_name cls)"
      using a unchanged [OF that] by simp
  qed
qed

theorem tablename_defaults_to_lowercase_name_witness:
  "explicit_tablename \<lparr>cls_name = ''HeroTeam'', explicit_tablename = None\<rparr> = None
   \<and> is_ascii ''HeroTeam''
   \<and> tablename ascii_lower \<lparr>cls_name = ''HeroTeam'', explicit_tablename = None\<rparr> = ''heroteam''"
proof -
  have ev: "ascii_lower ''HeroTeam'' = ''heroteam''"
    by code_simp
  have asc: "is_ascii ''HeroTeam''"
    by code_simp
  have agree: "\<forall>s. is_ascii s \<longrightarrow> ascii_lower s = ascii_lower s"
    by simp
  from tablename_defaults_to_lowercase_name
    [of "\<lparr>cls_name = ''HeroTeam'', explicit_tablename = None\<rparr>" ascii_lower] ev asc agree
  show ?thesis by simp
qed

text \<open>
  C3. The unwrapping, the order of the tests and the error for an unmapped class are as
  claimed (lemma \<open>storage_type_priority\<close>), but the maximum length of a string is applied
  only when it is truthy: for a string field whose maximum length is present and 0 the
  code returns the string type without a length (\<^verbatim>\<open>if max_length:\<close>), where the claim
  applies the length. The decimal branch of the same function hands its constraints on
  unchecked, zero included.
\<close>

theorem max_length_zero_not_applied:
  "get_field_metadata empty_string_field =
     \<lparr>max_length = Some 0, max_digits = None, decimal_places = None\<rparr>
   \<and> get_sqlalchemy_type empty_string_field = Inr (AutoString None)
   \<and> storage_type_by (priority_with spec_string_rule) (Class py_str) py_str
        (get_field_metadata empty_string_field) = Inr (AutoString (Some 0))
   \<and> get_sqlalchemy_type zero_decimal_field = Inr (Numeric (Some 0) (Some 0))"
  by (simp add: empty_string_field_def zero_decimal_field_def bare_field_def py_str_def
      py_Decimal_def get_sqlalchemy_type_def get_type_from_field_def get_origin_def
      get_field_metadata_def as_class_def dispatch_type_def issubclass_def storage_type_by_def
      priority_with_def spec_string_rule_def)

text \<open>
  C6. The placeholder is not set for every field without a default: a class body that
  marks a field as required with \<^verbatim>\<open>name: str = ...\<close> keeps the \<^verbatim>\<open>...\<close>, since the loop
  looks for \<^verbatim>\<open>Undefined\<close> and for descriptors only, although for a descriptor it does
  count \<^verbatim>\<open>Ellipsis\<close> as no default. The field stays required, and constructing the table
  class without arguments raises in the v2 branch.
\<close>

theorem ellipsis_default_gets_no_placeholder:
  "set_empty_defaults [(''name'', Class py_str)] [(''name'', CD_Value Ellipsis)] =
     [(''name'', CD_Value Ellipsis)]
   \<and> \<not> entry_has_default (map_of
         (set_empty_defaults [(''name'', Class py_str)] [(''name'', CD_Value Ellipsis)]) ''name'')
   \<and> set_empty_defaults [(''name'', Class py_str)]
        [(''name'', CD_Field ((bare_field NoneValue)\<lparr>default_val := Ellipsis\<rparr>))] =
       [(''name'', CD_Field ((bare_field NoneValue)
           \<lparr>default_val := PyNone, original_default := Some Ellipsis\<rparr>))]
   \<and> SQLModel_init True
        (required_validator [(''name'', Class py_str)]
           (set_empty_defaults [(''name'', Class py_str)] [(''name'', CD_Value Ellipsis)]))
        accept_assignment (hero_instance True) [] =
       (Some (ValidationError [(''name'', ''field required'')]), hero_instance True)"
proof -
  have a: "set_empty_defaults [(''name'', Class py_str)] [(''name'', CD_Value Ellipsis)] =
     [(''name'', CD_Value Ellipsis)]"
    by (simp add: set_empty_defaults_def set_empty_default_def)
  have b: "\<not> entry_has_default (map_of [(''name'', CD_Value Ellipsis)] ''name'')"
    by (simp add: entry_has_default_def)
  have c: "set_empty_defaults [(''name'', Class py_str)]
        [(''name'', CD_Field ((bare_field NoneValue)\<lparr>default_val := Ellipsis\<rparr>))] =
       [(''name'', CD_Field ((bare_field NoneValue)
           \<lparr>default_val := PyNone, original_default := Some Ellipsis\<rparr>))]"
    by (simp add: set_empty_defaults_def set_empty_default_def needs_placeholder_def
        with_original_default_def bare_field_def)
  have d: "required_validator [(''name'', Class py_str)] [(''name'', CD_Value Ellipsis)] [] =
      ([], [], Some (ValidationError [(''name'', ''field required'')]))"
    by (simp add: required_validator_def entry_has_default_def)
  have e: "SQLModel_init True
        (required_validator [(''name'', Class py_str)] [(''name'', CD_Value Ellipsis)])
        accept_assignment (hero_instance True) [] =
       (Some (ValidationError [(''name'', ''field required'')]), hero_instance True)"
    using init_v2_raises [of "required_validator [(''name'', Class py_str)]
        [(''name'', CD_Value Ellipsis)]", OF d] .
  from a b c e show ?thesis by simp
qed

end
